theory Spec2Isabelle
  imports Complex_Main
begin

section \<open>Python strings\<close>

text \<open>
  The engine of \<^verbatim>\<open>csv_to_json.py\<close> works on Python \<^verbatim>\<open>str\<close> values.  They are modelled
  as lists of 8-bit characters, read as the code points below 256; the string methods
  the source calls are written out below with Python's behaviour on that range.
\<close>

definition isspace :: "char \<Rightarrow> bool" where
  "isspace c = (of_char c \<in> {9::nat, 10, 11, 12, 13, 28, 29, 30, 31, 32, 133, 160})"

definition py_strip :: "string \<Rightarrow> string" where
  "py_strip s = rev (dropWhile isspace (rev (dropWhile isspace s)))"

definition lower_char :: "char \<Rightarrow> char" where
  "lower_char c =
     (let n = (of_char c :: nat) in
      if (65 \<le> n \<and> n \<le> 90) \<or> (192 \<le> n \<and> n \<le> 222 \<and> n \<noteq> 215)
      then char_of (n + 32) else c)"

definition py_lower :: "string \<Rightarrow> string" where
  "py_lower s = map lower_char s"

definition startswith :: "string \<Rightarrow> string \<Rightarrow> bool" where
  "startswith s p = (take (length p) s = p)"

definition endswith :: "string \<Rightarrow> string \<Rightarrow> bool" where
  "endswith s p = (length p \<le> length s \<and> drop (length s - length p) s = p)"

text \<open>\<^verbatim>\<open>s.find(sub)\<close>: the least index at which \<open>sub\<close> occurs, \<open>None\<close> for Python's -1.\<close>

fun py_find :: "string \<Rightarrow> string \<Rightarrow> nat option" where
  "py_find [] sub = (if sub = [] then Some 0 else None)"
| "py_find (c # s) sub =
     (if startswith (c # s) sub then Some 0
      else (case py_find s sub of None \<Rightarrow> None | Some i \<Rightarrow> Some (Suc i)))"

text \<open>
  \<^verbatim>\<open>s.replace(old, new)\<close> for a non-empty \<open>old\<close>: every non-overlapping occurrence, from
  the left.  The second argument of \<open>py_replace_from\<close> counts the characters of an
  occurrence still to be skipped.
\<close>

fun py_replace_from :: "string \<Rightarrow> nat \<Rightarrow> string \<Rightarrow> string \<Rightarrow> string" where
  "py_replace_from [] k old new = []"
| "py_replace_from (c # s) (Suc k) old new = py_replace_from s k old new"
| "py_replace_from (c # s) 0 old new =
     (if startswith (c # s) old then new @ py_replace_from s (length old - 1) old new
      else c # py_replace_from s 0 old new)"

definition intersperse_str :: "string \<Rightarrow> string \<Rightarrow> string" where
  "intersperse_str new s = new @ concat (map (\<lambda>c. c # new) s)"

definition py_replace :: "string \<Rightarrow> string \<Rightarrow> string \<Rightarrow> string" where
  "py_replace s old new = (if old = [] then intersperse_str new s else py_replace_from s 0 old new)"

text \<open>\<^verbatim>\<open>s.split(c)\<close> for a one-character separator, and \<^verbatim>\<open>sep.join(parts)\<close>.\<close>

fun py_split :: "char \<Rightarrow> string \<Rightarrow> string list" where
  "py_split sep [] = [[]]"
| "py_split sep (c # s) =
     (if c = sep then [] # py_split sep s
      else (case py_split sep s of [] \<Rightarrow> [[c]] | p # ps \<Rightarrow> (c # p) # ps))"

fun py_join :: "string \<Rightarrow> string list \<Rightarrow> string" where
  "py_join sep [] = []"
| "py_join sep [p] = p"
| "py_join sep (p # q # ps) = p @ sep @ py_join sep (q # ps)"

text \<open>\<^verbatim>\<open>str(n)\<close> for a non-negative integer, and \<^verbatim>\<open>int(s)\<close> on a string of ASCII digits.\<close>

definition digit_char :: "nat \<Rightarrow> char" where
  "digit_char n = char_of (48 + n mod 10)"

function py_str :: "nat \<Rightarrow> string" where
  "py_str n = (if n < 10 then [digit_char n] else py_str (n div 10) @ [digit_char (n mod 10)])"
  by pat_completeness auto
termination
  by (relation "measure id") auto

declare py_str.simps [simp del]

definition isdigit :: "char \<Rightarrow> bool" where
  "isdigit c = (48 \<le> (of_char c :: nat) \<and> (of_char c :: nat) \<le> 57)"

definition digit_val :: "char \<Rightarrow> nat" where
  "digit_val c = of_char c - 48"

definition digits_to_nat :: "string \<Rightarrow> nat" where
  "digits_to_nat s = foldl (\<lambda>n c. 10 * n + digit_val c) 0 s"

text \<open>
  \<^verbatim>\<open>int\<close> refuses a decimal string of more than \<^verbatim>\<open>sys.get_int_max_str_digits()\<close> digits with
  a \<^verbatim>\<open>ValueError\<close>; the limit is 4300 unless the interpreter is started with another one
  (CPython 3.11 and later, and the security releases of the earlier versions).
\<close>

definition max_str_digits :: nat where
  "max_str_digits = 4300"

section \<open>Errors\<close>

text \<open>
  Every exception the modelled code can raise is a value.  All of them are subclasses of
  Python's \<^verbatim>\<open>Exception\<close>, so an \<^verbatim>\<open>except Exception\<close> handler catches each one.
  \<open>OSError\<close> stands for what \<^verbatim>\<open>open\<close> raises (\<^verbatim>\<open>FileNotFoundError\<close> and the other subclasses).
  The three last constructors are the \<^verbatim>\<open>raise Exception(...)\<close> statements of the source, with the
  name they report.
\<close>

datatype error =
    TypeError
  | KeyError
  | IndexError
  | AttributeError
  | ValueError
  | AssertionError
  | RecursionError
  | OSError
  | DuplicateParameterInCsv string
  | DuplicateArrayParameter string
  | DuplicateAttributes string

section \<open>Objects and the store\<close>

text \<open>
  Keys of dictionaries and entries of key paths are strings or integers (the source
  wraps array elements as \<^verbatim>\<open>{0: element}\<close> and uses list indexes in paths).
\<close>

datatype key = KStr string | KInt nat

text \<open>
  A Python float is carried as its exact value; no arithmetic on floats is modelled.
\<close>

datatype pyfloat = Finite rat | PosInf | NegInf | NaN

text \<open>
  Values are scalars or references to containers.  Containers (dicts and lists) are
  mutable and live in the store, a list of objects addressed by position; allocation
  appends.  A dict keeps its insertion order, as Python's does.
\<close>

datatype val = VNone | VBool bool | VInt int | VFloat pyfloat | VStr string | VRef nat

datatype obj = ODict "(key \<times> val) list" | OList "val list"

type_synonym heap = "obj list"

definition alloc :: "obj \<Rightarrow> heap \<Rightarrow> nat \<times> heap" where
  "alloc ob h = (length h, h @ [ob])"

definition heap_get :: "heap \<Rightarrow> nat \<Rightarrow> obj option" where
  "heap_get h a = (if a < length h then Some (h ! a) else None)"

definition heap_set :: "nat \<Rightarrow> obj \<Rightarrow> heap \<Rightarrow> heap" where
  "heap_set a ob h = h[a := ob]"

subsection \<open>Ordered dictionaries\<close>

fun dict_get :: "('k \<times> 'v) list \<Rightarrow> 'k \<Rightarrow> 'v option" where
  "dict_get [] k = None"
| "dict_get ((k', v) # kvs) k = (if k' = k then Some v else dict_get kvs k)"

fun dict_set :: "('k \<times> 'v) list \<Rightarrow> 'k \<Rightarrow> 'v \<Rightarrow> ('k \<times> 'v) list" where
  "dict_set [] k v = [(k, v)]"
| "dict_set ((k', v') # kvs) k v =
     (if k' = k then (k, v) # kvs else (k', v') # dict_set kvs k v)"

fun dict_del :: "('k \<times> 'v) list \<Rightarrow> 'k \<Rightarrow> ('k \<times> 'v) list" where
  "dict_del [] k = []"
| "dict_del ((k', v) # kvs) k = (if k' = k then kvs else (k', v) # dict_del kvs k)"

section \<open>The parameter index and the column bindings\<close>

text \<open>
  An occurrence of a placeholder, as \<^verbatim>\<open>parse_template_parameters\<close> records it: the tuple
  \<^verbatim>\<open>(root_object, keys, root_list)\<close>, where \<^verbatim>\<open>root_list\<close> holds one \<^verbatim>\<open>(object, keys)\<close> anchor
  per enclosing one-element array.  Objects are held by reference.
\<close>

type_synonym anchor = "nat \<times> key list"

type_synonym prec = "nat \<times> key list \<times> anchor list"

type_synonym pindex = "(string \<times> prec list) list"

text \<open>
  A binding is what \<^verbatim>\<open>map_parameter_column\<close> holds for a placeholder: one column index,
  or a list of \<^verbatim>\<open>[i1, ..., id, column]\<close> entries (kept as the pair of the coordinates and
  the column).
\<close>

datatype binding = BScalar nat | BArray "(nat list \<times> nat) list"

type_synonym bindings = "(string \<times> binding) list"

subsection \<open>\<^verbatim>\<open>map_csv_column_names_to_parameters\<close>\<close>

text \<open>
  \<^verbatim>\<open>get_column_index\<close>: the position of the column name, \<open>None\<close> for -1, and the
  duplicate-column exception when the name occurs a second time.
\<close>

fun index_of :: "'a list \<Rightarrow> 'a \<Rightarrow> nat option" where
  "index_of [] x = None"
| "index_of (y # ys) x =
     (if y = x then Some 0 else (case index_of ys x of None \<Rightarrow> None | Some i \<Rightarrow> Some (Suc i)))"

definition get_column_index :: "string list \<Rightarrow> string \<Rightarrow> error + nat option" where
  "get_column_index col_names col_name =
     (case index_of col_names col_name of
        None \<Rightarrow> Inr None
      | Some idx \<Rightarrow>
          (case index_of (drop (Suc idx) col_names) col_name of
             None \<Rightarrow> Inr (Some idx)
           | Some _ \<Rightarrow> Inl (DuplicateParameterInCsv col_name)))"

text \<open>
  \<^verbatim>\<open>re.fullmatch(re.escape(parameter_key) + '_[1-9][0-9]*' * d_array, column_name)\<close>:
  the key, literally, followed by exactly \<open>d\<close> groups of an underscore and a decimal
  number without a leading zero.
\<close>

fun match_groups :: "nat \<Rightarrow> string \<Rightarrow> bool" where
  "match_groups 0 s = (s = [])"
| "match_groups (Suc d) s =
     (case s of
        u # c # rest \<Rightarrow>
          u = CHR ''_'' \<and> isdigit c \<and> c \<noteq> CHR ''0'' \<and> match_groups d (dropWhile isdigit rest)
      | _ \<Rightarrow> False)"

definition fullmatch_indexed :: "string \<Rightarrow> nat \<Rightarrow> string \<Rightarrow> bool" where
  "fullmatch_indexed parameter_key d column_name =
     (startswith column_name parameter_key \<and>
      match_groups d (drop (length parameter_key) column_name))"

text \<open>
  The scan for the maximum index at each position.  \<^verbatim>\<open>[int(n) for n in temp_name.split('_')]\<close>
  raises a \<^verbatim>\<open>ValueError\<close> when one of the numbers has more digits than the limit.
\<close>

fun max_indexes :: "string \<Rightarrow> nat \<Rightarrow> string list \<Rightarrow> nat list \<Rightarrow> error + nat list" where
  "max_indexes parameter_key d [] indexes_count = Inr indexes_count"
| "max_indexes parameter_key d (column_name # column_names) indexes_count =
     (if fullmatch_indexed parameter_key d column_name
      then (let temp_name = drop (length parameter_key + 1) column_name;
                col_texts = py_split (CHR ''_'') temp_name;
                col_nums = map digits_to_nat col_texts
            in if list_all (\<lambda>n. length n \<le> max_str_digits) col_texts
               then max_indexes parameter_key d column_names
                      (map (\<lambda>i. max (indexes_count ! i) (col_nums ! i)) [0..<d])
               else Inl ValueError)
      else max_indexes parameter_key d column_names indexes_count)"

text \<open>
  The \<^verbatim>\<open>for i in range(d_array-1, -1, -1)\<close> loop that advances the coordinates: the first
  argument is \<open>i + 1\<close>.  It returns the coordinates and the flag \<^verbatim>\<open>done\<close>.
\<close>

fun advance :: "nat \<Rightarrow> nat list \<Rightarrow> nat list \<Rightarrow> bool \<Rightarrow> nat list \<times> bool" where
  "advance 0 indexes_column indexes_count dn = (indexes_column, dn)"
| "advance (Suc i) indexes_column indexes_count dn =
     (let temp_val = indexes_column ! i + 1 in
      if temp_val < indexes_count ! i
      then ((take i indexes_column @ replicate (length indexes_column - i) 0)[i := temp_val], dn)
      else advance i indexes_column indexes_count (i = 0))"

definition name_with_indexes :: "string \<Rightarrow> nat list \<Rightarrow> string" where
  "name_with_indexes parameter_key indexes_column =
     foldl (\<lambda>s i. s @ ''_'' @ py_str (i + 1)) parameter_key indexes_column"


text \<open>
  The \<^verbatim>\<open>while not done\<close> loop: look the indexed name up, record the column when it is
  there, advance.  The source enters it with \<^verbatim>\<open>d_array > 0\<close> only, so the coordinate list
  is not empty.  It ends because the coordinates grow in the lexicographic order below
  the maxima.
\<close>

function (sequential) bind_loop ::
  "string list \<Rightarrow> string \<Rightarrow> nat list \<Rightarrow> nat list \<Rightarrow> (nat list \<times> nat) list
     \<Rightarrow> error + (nat list \<times> nat) list" where
  "bind_loop column_names parameter_key indexes_count (i0 # idxs) parameter_column =
     (let indexes_column = i0 # idxs in
      case get_column_index column_names (name_with_indexes parameter_key indexes_column) of
        Inl e \<Rightarrow> Inl e
      | Inr csv_index \<Rightarrow>
          (let parameter_column' =
                 (case csv_index of
                    Some c \<Rightarrow> parameter_column @ [(indexes_column, c)]
                  | None \<Rightarrow> parameter_column)
           in case advance (length indexes_column) indexes_column indexes_count False of
                (indexes_column', dn) \<Rightarrow>
                  if dn then Inr parameter_column'
                  else bind_loop column_names parameter_key indexes_count indexes_column'
                         parameter_column'))"
  by pat_completeness auto


text \<open>The loop ends: the distances to the maxima decrease lexicographically.\<close>

definition slack :: "nat list \<Rightarrow> nat list \<Rightarrow> nat list" where
  "slack cnt idx = map (\<lambda>k. cnt ! k - idx ! k) [0..<length idx]"

lemma advance_not_done:
  "advance n idx cnt dn = (idx', False) \<Longrightarrow> (n = 0 \<longrightarrow> dn) \<Longrightarrow>
   \<exists>i<n. idx ! i + 1 < cnt ! i \<and> idx' = (take i idx @ replicate (length idx - i) 0)[i := idx ! i + 1]"
proof (induction n arbitrary: dn)
  case 0 then show ?case by simp
next
  case (Suc n)
  show ?case
  proof (cases "idx ! n + 1 < cnt ! n")
    case True
    with Suc.prems show ?thesis by (auto simp: Let_def)
  next
    case False
    with Suc.prems have a: "advance n idx cnt (n = 0) = (idx', False)" by (simp add: Let_def)
    from Suc.IH[OF a] obtain i where "i < n" "idx ! i + 1 < cnt ! i"
      "idx' = (take i idx @ replicate (length idx - i) 0)[i := idx ! i + 1]" by auto
    then show ?thesis using less_Suc_eq by blast
  qed
qed

lemma lex_map_upt:
  assumes "i < d" "\<forall>k<i. f k = g k" "(f i, g i) \<in> r"
  shows "(map f [0..<d], map g [0..<d]) \<in> lex r"
proof -
  have d: "[0..<d] = [0..<i] @ i # [Suc i..<d]"
    using assms(1)
    by (metis le0 less_imp_le_nat upt_add_eq_append upt_conv_Cons le_add_diff_inverse)
  have "map f [0..<i] = map g [0..<i]" using assms(2) by simp
  then show ?thesis
    unfolding lex_conv using assms(3)
    by (auto simp: d intro!: exI[of _ "map g [0..<i]"])
qed

lemma slack_step:
  assumes "i < length idx" "idx ! i + 1 < cnt ! i"
  shows "(slack cnt ((take i idx @ replicate (length idx - i) 0)[i := idx ! i + 1]), slack cnt idx)
           \<in> lex less_than"
proof -
  let ?idx' = "(take i idx @ replicate (length idx - i) 0)[i := idx ! i + 1]"
  have l: "length ?idx' = length idx" using assms(1) by simp
  have a: "\<forall>k<i. cnt ! k - ?idx' ! k = cnt ! k - idx ! k"
    using assms(1) by (simp add: nth_append)
  have b: "(cnt ! i - ?idx' ! i, cnt ! i - idx ! i) \<in> less_than"
    using assms by (simp add: nth_list_update)
  show ?thesis
    unfolding slack_def l
    by (rule lex_map_upt[OF assms(1)]) (use a b in auto)
qed

lemma advance_slack:
  assumes "advance (length idx) idx cnt False = (idx', False)" "idx \<noteq> []"
  shows "(slack cnt idx', slack cnt idx) \<in> lex less_than"
proof -
  from advance_not_done[OF assms(1)] assms(2) obtain i where i: "i < length idx"
    "idx ! i + 1 < cnt ! i"
    "idx' = (take i idx @ replicate (length idx - i) 0)[i := idx ! i + 1]"
    by auto
  show ?thesis using slack_step[OF i(1,2)] i(3) by simp
qed

termination bind_loop
proof (relation "inv_image (lex less_than) (\<lambda>(cols, k, cnt, idx, acc). slack cnt idx)")
  show "wf (inv_image (lex less_than) (\<lambda>(cols, k, cnt, idx, acc). slack cnt idx))"
    by (simp add: wf_lex)
next
  fix indexes_count :: "nat list" and i0 idxs x xb y
  assume "x = i0 # idxs" "(xb, y) = advance (length x) x indexes_count False" "\<not> y"
  then have "advance (length x) x indexes_count False = (xb, False)" "x \<noteq> []" by simp_all
  from advance_slack[OF this] \<open>x = i0 # idxs\<close>
  show "((column_names, parameter_key, indexes_count, xb, x2a), column_names, parameter_key,
           indexes_count, i0 # idxs, parameter_column)
          \<in> inv_image (lex less_than) (\<lambda>(cols, k, cnt, idx, acc). slack cnt idx)"
    for column_names :: "string list" and parameter_key :: string
      and x2a parameter_column :: "(nat list \<times> nat) list"
    by simp
qed

declare bind_loop.simps [simp del]

text \<open>
  The body of \<^verbatim>\<open>for parameter_rec in parameter_recs\<close>.  A record outside every array
  binds the column named by the key unless the placeholder is bound already; a record
  inside an array raises when the placeholder is bound already and binds the grid of
  indexed columns otherwise.
\<close>

definition d_array_of :: "prec \<Rightarrow> nat" where
  "d_array_of parameter_rec = (case parameter_rec of (root_object, keys, root_list) \<Rightarrow> length root_list)"

fun bind_recs ::
  "string list \<Rightarrow> string \<Rightarrow> string \<Rightarrow> prec list \<Rightarrow> bindings \<Rightarrow> error + bindings" where
  "bind_recs column_names parameter parameter_key [] m = Inr m"
| "bind_recs column_names parameter parameter_key (parameter_rec # parameter_recs) m =
     (let d_array = d_array_of parameter_rec in
      if d_array = 0 then
        (case dict_get m parameter of
           None \<Rightarrow>
             (case get_column_index column_names parameter_key of
                Inl e \<Rightarrow> Inl e
              | Inr None \<Rightarrow> bind_recs column_names parameter parameter_key parameter_recs m
              | Inr (Some csv_index) \<Rightarrow>
                  bind_recs column_names parameter parameter_key parameter_recs
                    (dict_set m parameter (BScalar csv_index)))
         | Some parameter_column \<Rightarrow>
             bind_recs column_names parameter parameter_key parameter_recs m)
      else
        (case dict_get m parameter of
           Some parameter_column \<Rightarrow> Inl (DuplicateArrayParameter parameter)
         | None \<Rightarrow>
             (case max_indexes parameter_key d_array column_names (replicate d_array 0) of
                Inl e \<Rightarrow> Inl e
              | Inr indexes_count \<Rightarrow>
                  (case bind_loop column_names parameter_key indexes_count
                          (replicate d_array 0) [] of
                     Inl e \<Rightarrow> Inl e
                   | Inr parameter_column \<Rightarrow>
                       bind_recs column_names parameter parameter_key parameter_recs
                         (dict_set m parameter (BArray parameter_column))))))"

text \<open>
  \<^verbatim>\<open>parameter[len('{{'):-len('}}')].strip().lower()\<close>, the name a column must carry.
\<close>

definition parameter_key_of :: "string \<Rightarrow> string" where
  "parameter_key_of parameter = py_lower (py_strip (drop 2 (take (length parameter - 2) parameter)))"

fun bind_params :: "string list \<Rightarrow> pindex \<Rightarrow> bindings \<Rightarrow> error + bindings" where
  "bind_params column_names [] m = Inr m"
| "bind_params column_names ((parameter, parameter_recs) # rest) m =
     (case bind_recs column_names parameter (parameter_key_of parameter) parameter_recs m of
        Inl e \<Rightarrow> Inl e
      | Inr m' \<Rightarrow> bind_params column_names rest m')"

text \<open>
  The CSV file is given as its rows, each a list of cells, as \<^verbatim>\<open>csv.reader\<close> yields them.
  The column names are the cells of the first row, stripped and lower-cased.
\<close>

definition read_column_names :: "string list list \<Rightarrow> string list" where
  "read_column_names csv_rows =
     (case csv_rows of [] \<Rightarrow> [] | row # _ \<Rightarrow> map (\<lambda>colname. py_lower (py_strip colname)) row)"

definition map_csv_column_names_to_parameters :: "string list list \<Rightarrow> pindex \<Rightarrow> error + bindings" where
  "map_csv_column_names_to_parameters csv_rows parameters_object =
     bind_params (read_column_names csv_rows) parameters_object []"


section \<open>Operations on stored objects\<close>

text \<open>
  A function that reads or changes the store takes it as its last argument and returns
  it, with the exception or the result.  After an exception the store is the one the
  exception left behind.
\<close>

type_synonym 'a res = "(error + 'a) \<times> heap"

datatype pytype = TDict | TList | TStr | TInt | TBool | TFloat | TNone

definition type_of :: "heap \<Rightarrow> val \<Rightarrow> pytype" where
  "type_of h v =
     (case v of
        VNone \<Rightarrow> TNone
      | VBool b \<Rightarrow> TBool
      | VInt i \<Rightarrow> TInt
      | VFloat f \<Rightarrow> TFloat
      | VStr s \<Rightarrow> TStr
      | VRef a \<Rightarrow> (case heap_get h a of Some (ODict kvs) \<Rightarrow> TDict | Some (OList xs) \<Rightarrow> TList | None \<Rightarrow> TNone))"

text \<open>\<^verbatim>\<open>v[k]\<close>, \<^verbatim>\<open>v[k] = x\<close> and \<^verbatim>\<open>len(v)\<close>.\<close>

definition subscript :: "heap \<Rightarrow> val \<Rightarrow> key \<Rightarrow> error + val" where
  "subscript h v k =
     (case v of
        VRef a \<Rightarrow>
          (case heap_get h a of
             Some (ODict kvs) \<Rightarrow> (case dict_get kvs k of Some x \<Rightarrow> Inr x | None \<Rightarrow> Inl KeyError)
           | Some (OList xs) \<Rightarrow>
               (case k of
                  KInt i \<Rightarrow> if i < length xs then Inr (xs ! i) else Inl IndexError
                | KStr s \<Rightarrow> Inl TypeError)
           | None \<Rightarrow> Inl TypeError)
      | VStr s \<Rightarrow>
          (case k of
             KInt i \<Rightarrow> if i < length s then Inr (VStr [s ! i]) else Inl IndexError
           | KStr t \<Rightarrow> Inl TypeError)
      | _ \<Rightarrow> Inl TypeError)"

definition setitem :: "val \<Rightarrow> key \<Rightarrow> val \<Rightarrow> heap \<Rightarrow> unit res" where
  "setitem v k x h =
     (case v of
        VRef a \<Rightarrow>
          (case heap_get h a of
             Some (ODict kvs) \<Rightarrow> (Inr (), heap_set a (ODict (dict_set kvs k x)) h)
           | Some (OList xs) \<Rightarrow>
               (case k of
                  KInt i \<Rightarrow>
                    if i < length xs then (Inr (), heap_set a (OList (xs[i := x])) h)
                    else (Inl IndexError, h)
                | KStr s \<Rightarrow> (Inl TypeError, h))
           | None \<Rightarrow> (Inl TypeError, h))
      | _ \<Rightarrow> (Inl TypeError, h))"

definition py_len :: "heap \<Rightarrow> val \<Rightarrow> error + nat" where
  "py_len h v =
     (case v of
        VRef a \<Rightarrow>
          (case heap_get h a of
             Some (ODict kvs) \<Rightarrow> Inr (length kvs)
           | Some (OList xs) \<Rightarrow> Inr (length xs)
           | None \<Rightarrow> Inl TypeError)
      | VStr s \<Rightarrow> Inr (length s)
      | _ \<Rightarrow> Inl TypeError)"

subsection \<open>\<^verbatim>\<open>copy.deepcopy\<close>\<close>

text \<open>
  The copy of a container is a new container holding the copies of its items; scalars
  are immutable and copy to themselves.  \<^verbatim>\<open>copy.deepcopy\<close> keeps a memo table from the
  objects it has met to their copies: a container is entered in the table as soon as its
  (still empty) copy is made, before the items are copied into it, and an object that is
  found in the table is not copied again.  The first argument bounds the depth of the
  recursion, as the interpreter's recursion limit does: beyond it the call raises
  \<^verbatim>\<open>RecursionError\<close>.  Every recursive traversal below carries such a bound.
\<close>

type_synonym memo = "(nat \<times> nat) list"

function (sequential) deepcopy_memo :: "nat \<Rightarrow> val \<Rightarrow> memo \<Rightarrow> heap \<Rightarrow> (val \<times> memo) res"
  and deepcopy_items :: "nat \<Rightarrow> nat \<Rightarrow> (key \<times> val) list \<Rightarrow> memo \<Rightarrow> heap \<Rightarrow> memo res"
  and deepcopy_list :: "nat \<Rightarrow> nat \<Rightarrow> val list \<Rightarrow> memo \<Rightarrow> heap \<Rightarrow> memo res" where
  "deepcopy_memo n (VRef a) memo h =
     (case dict_get memo a of
        Some y \<Rightarrow> (Inr (VRef y, memo), h)
      | None \<Rightarrow>
          (case n of
             0 \<Rightarrow> (Inl RecursionError, h)
           | Suc m \<Rightarrow>
               (case heap_get h a of
                  Some (ODict kvs) \<Rightarrow>
                    (case alloc (ODict []) h of
                       (y, h1) \<Rightarrow>
                         (case deepcopy_items m y kvs ((a, y) # memo) h1 of
                            (Inl e, h2) \<Rightarrow> (Inl e, h2)
                          | (Inr memo', h2) \<Rightarrow> (Inr (VRef y, memo'), h2)))
                | Some (OList xs) \<Rightarrow>
                    (case alloc (OList []) h of
                       (y, h1) \<Rightarrow>
                         (case deepcopy_list m y xs ((a, y) # memo) h1 of
                            (Inl e, h2) \<Rightarrow> (Inl e, h2)
                          | (Inr memo', h2) \<Rightarrow> (Inr (VRef y, memo'), h2)))
                | None \<Rightarrow> (Inl TypeError, h))))"
| "deepcopy_memo n v memo h = (Inr (v, memo), h)"
| "deepcopy_items n y [] memo h = (Inr memo, h)"
| "deepcopy_items n y ((k, v) # kvs) memo h =
     (case deepcopy_memo n v memo h of
        (Inl e, h1) \<Rightarrow> (Inl e, h1)
      | (Inr (v', memo1), h1) \<Rightarrow>
          (case heap_get h1 y of
             Some (ODict ys) \<Rightarrow>
               deepcopy_items n y kvs memo1 (heap_set y (ODict (dict_set ys k v')) h1)
           | _ \<Rightarrow> (Inl TypeError, h1)))"
| "deepcopy_list n y [] memo h = (Inr memo, h)"
| "deepcopy_list n y (v # vs) memo h =
     (case deepcopy_memo n v memo h of
        (Inl e, h1) \<Rightarrow> (Inl e, h1)
      | (Inr (v', memo1), h1) \<Rightarrow>
          (case heap_get h1 y of
             Some (OList ys) \<Rightarrow>
               deepcopy_list n y vs memo1 (heap_set y (OList (ys @ [v'])) h1)
           | _ \<Rightarrow> (Inl TypeError, h1)))"
  by pat_completeness auto
termination
  by (relation "measures [\<lambda>x. case x of Inl (n, _) \<Rightarrow> 2 * n + 1 | Inr (Inl (n, _)) \<Rightarrow> 2 * n + 2
                                | Inr (Inr (n, _)) \<Rightarrow> 2 * n + 2,
                          \<lambda>x. case x of Inl _ \<Rightarrow> 0 | Inr (Inl (n, y, kvs, _)) \<Rightarrow> Suc (length kvs)
                                          | Inr (Inr (n, y, vs, _)) \<Rightarrow> Suc (length vs)]") auto

text \<open>\<^verbatim>\<open>copy.deepcopy(x)\<close>: the table starts empty.\<close>

definition deepcopy :: "nat \<Rightarrow> val \<Rightarrow> heap \<Rightarrow> val res" where
  "deepcopy n v h =
     (case deepcopy_memo n v [] h of
        (Inl e, h1) \<Rightarrow> (Inl e, h1)
      | (Inr (v', memo), h1) \<Rightarrow> (Inr v', h1))"

section \<open>\<^verbatim>\<open>parse_template_parameters\<close>\<close>

definition parameter_start_delimiter :: string where
  "parameter_start_delimiter = ''{{''"

definition parameter_end_delimiter :: string where
  "parameter_end_delimiter = ''}}''"

text \<open>
  \<^verbatim>\<open>parameter_recs = parameters_object.get(parameter)\<close>, created empty when absent, then
  \<^verbatim>\<open>parameter_recs.append(rec)\<close>.
\<close>

definition add_parameter_rec :: "pindex \<Rightarrow> string \<Rightarrow> prec \<Rightarrow> pindex" where
  "add_parameter_rec parameters_object parameter parameter_rec =
     (case dict_get parameters_object parameter of
        None \<Rightarrow> dict_set parameters_object parameter [parameter_rec]
      | Some parameter_recs \<Rightarrow> dict_set parameters_object parameter (parameter_recs @ [parameter_rec]))"

lemma length_py_strip: "length (py_strip s) \<le> length s"
proof -
  have "length (py_strip s) \<le> length (dropWhile isspace s)"
    unfolding py_strip_def
    using length_dropWhile_le[of isspace "rev (dropWhile isspace s)"] by simp
  then show ?thesis using length_dropWhile_le[of isspace s] by linarith
qed

function parse_str :: "nat \<Rightarrow> key list \<Rightarrow> string \<Rightarrow> anchor list \<Rightarrow> pindex \<Rightarrow> pindex" where
  "parse_str root_object keys val0 root_list parameters_object =
     (let val1 = py_strip val0 in
      case (py_find val1 parameter_start_delimiter, py_find val1 parameter_end_delimiter) of
        (Some parameter_start_index, Some parameter_end_index) \<Rightarrow>
          (let parameter = take (parameter_end_index + length parameter_end_delimiter - parameter_start_index)
                             (drop parameter_start_index val1);
               parameters_object' =
                 (if length parameter > 0
                  then add_parameter_rec parameters_object parameter (root_object, keys, root_list)
                  else parameters_object);
               val_left = drop (parameter_end_index + length parameter_end_delimiter) val1
           in if length val_left > 0
              then parse_str root_object keys val_left root_list parameters_object'
              else parameters_object')
      | _ \<Rightarrow> parameters_object)"
  by pat_completeness auto
termination
proof (relation "measure (\<lambda>(root_object, keys, val0, root_list, parameters_object). length val0)")
  show "wf (measure (\<lambda>(root_object, keys, val0, root_list, parameters_object). length val0))"
    by simp
next
  fix root_object :: nat and keys :: "key list" and val0 :: string and root_list :: "anchor list"
    and parameters_object :: pindex and x x1 x2 x2a x2b xa xb xc xd
  assume "x = py_strip val0" and "xd = drop (x2b + length parameter_end_delimiter) x"
    and "0 < length xd"
  then have "length xd < length x"
    by (simp add: parameter_end_delimiter_def)
  with \<open>x = py_strip val0\<close> length_py_strip[of val0]
  show "((root_object, keys, xd, root_list, xc), root_object, keys, val0, root_list, parameters_object)
          \<in> measure (\<lambda>(root_object, keys, val0, root_list, parameters_object). length val0)"
    by simp
qed

declare parse_str.simps [simp del]

text \<open>
  \<^verbatim>\<open>parse_dict\<close> walks the items of a dict.  A one-element list starts a new root: the
  wrapper \<^verbatim>\<open>{0: val[0]}\<close> is a new object, and the anchor \<^verbatim>\<open>(root_object, new_keys)\<close> is
  pushed.  \<open>parse_items\<close> is the body of the \<^verbatim>\<open>for key, val in parent_object.items()\<close> loop.
\<close>

function (sequential) parse_dict ::
    "nat \<Rightarrow> nat \<Rightarrow> nat \<Rightarrow> key list \<Rightarrow> anchor list \<Rightarrow> pindex \<Rightarrow> heap \<Rightarrow> pindex res"
  and parse_items ::
    "nat \<Rightarrow> (key \<times> val) list \<Rightarrow> nat \<Rightarrow> key list \<Rightarrow> anchor list \<Rightarrow> pindex \<Rightarrow> heap \<Rightarrow> pindex res" where
  "parse_dict 0 parent_object root_object keys root_list parameters_object h = (Inl RecursionError, h)"
| "parse_dict (Suc n) parent_object root_object keys root_list parameters_object h =
     (case heap_get h parent_object of
        Some (ODict kvs) \<Rightarrow> parse_items n kvs root_object keys root_list parameters_object h
      | _ \<Rightarrow> (Inl AttributeError, h))"
| "parse_items n [] root_object keys root_list parameters_object h = (Inr parameters_object, h)"
| "parse_items n ((k, v) # kvs) root_object keys root_list parameters_object h =
     (let new_keys = keys @ [k] in
      case v of
        VRef a \<Rightarrow>
          (case heap_get h a of
             Some (ODict items) \<Rightarrow>
               (case parse_dict n a root_object new_keys root_list parameters_object h of
                  (Inl e, h1) \<Rightarrow> (Inl e, h1)
                | (Inr parameters_object', h1) \<Rightarrow>
                    parse_items n kvs root_object keys root_list parameters_object' h1)
           | Some (OList [v0]) \<Rightarrow>
               (let new_root_list = root_list @ [(root_object, new_keys)] in
                case alloc (ODict [(KInt 0, v0)]) h of
                  (new_root_object, h1) \<Rightarrow>
                    (case parse_dict n new_root_object new_root_object [] new_root_list
                            parameters_object h1 of
                       (Inl e, h2) \<Rightarrow> (Inl e, h2)
                     | (Inr parameters_object', h2) \<Rightarrow>
                         parse_items n kvs root_object keys root_list parameters_object' h2))
           | _ \<Rightarrow> parse_items n kvs root_object keys root_list parameters_object h)
      | VStr s \<Rightarrow>
          parse_items n kvs root_object keys root_list
            (parse_str root_object new_keys s root_list parameters_object) h
      | _ \<Rightarrow> parse_items n kvs root_object keys root_list parameters_object h)"
  by pat_completeness auto
termination
  by (relation "measures [\<lambda>x. case x of Inl (n, _) \<Rightarrow> n | Inr (n, _) \<Rightarrow> n,
                          \<lambda>x. case x of Inl _ \<Rightarrow> 0 | Inr (n, kvs, _) \<Rightarrow> Suc (length kvs)]") auto

text \<open>
  \<^verbatim>\<open>parse_template_parameters(root_object, parameters_object)\<close>.  A root that is not a dict
  has no \<^verbatim>\<open>items\<close>.
\<close>

definition parse_template_parameters :: "nat \<Rightarrow> val \<Rightarrow> pindex \<Rightarrow> heap \<Rightarrow> pindex res" where
  "parse_template_parameters n root_object parameters_object h =
     (case root_object of
        VRef a \<Rightarrow> parse_dict n a a [] [] parameters_object h
      | _ \<Rightarrow> (Inl AttributeError, h))"

section \<open>JSON documents\<close>

text \<open>
  A document as it stands in a file.  \<^verbatim>\<open>json.load\<close> builds its objects in the store (a key
  that occurs twice keeps its first place and its last value, as in a Python dict), and
  \<^verbatim>\<open>json.dump\<close> reads a document back from the store; an integer key is written as its
  decimal string.
\<close>

datatype json =
    JNull
  | JBool bool
  | JInt int
  | JFloat pyfloat
  | JStr string
  | JArr "json list"
  | JObj "(string \<times> json) list"

fun json_load :: "json \<Rightarrow> heap \<Rightarrow> val \<times> heap"
  and json_load_list :: "json list \<Rightarrow> heap \<Rightarrow> val list \<times> heap"
  and json_load_items ::
    "(string \<times> json) list \<Rightarrow> (key \<times> val) list \<Rightarrow> heap \<Rightarrow> (key \<times> val) list \<times> heap" where
  "json_load JNull h = (VNone, h)"
| "json_load (JBool b) h = (VBool b, h)"
| "json_load (JInt i) h = (VInt i, h)"
| "json_load (JFloat f) h = (VFloat f, h)"
| "json_load (JStr s) h = (VStr s, h)"
| "json_load (JArr js) h =
     (case json_load_list js h of
        (vs, h1) \<Rightarrow> (case alloc (OList vs) h1 of (a, h2) \<Rightarrow> (VRef a, h2)))"
| "json_load (JObj fields) h =
     (case json_load_items fields [] h of
        (kvs, h1) \<Rightarrow> (case alloc (ODict kvs) h1 of (a, h2) \<Rightarrow> (VRef a, h2)))"
| "json_load_list [] h = ([], h)"
| "json_load_list (j # js) h =
     (case json_load j h of
        (v, h1) \<Rightarrow> (case json_load_list js h1 of (vs, h2) \<Rightarrow> (v # vs, h2)))"
| "json_load_items [] kvs h = (kvs, h)"
| "json_load_items ((k, j) # fields) kvs h =
     (case json_load j h of
        (v, h1) \<Rightarrow> json_load_items fields (dict_set kvs (KStr k) v) h1)"

definition key_text :: "key \<Rightarrow> string" where
  "key_text k = (case k of KStr s \<Rightarrow> s | KInt i \<Rightarrow> py_str i)"

function (sequential) json_dump :: "nat \<Rightarrow> heap \<Rightarrow> val \<Rightarrow> error + json"
  and json_dump_list :: "nat \<Rightarrow> heap \<Rightarrow> val list \<Rightarrow> error + json list"
  and json_dump_items :: "nat \<Rightarrow> heap \<Rightarrow> (key \<times> val) list \<Rightarrow> error + (string \<times> json) list" where
  "json_dump (Suc n) h (VRef a) =
     (case heap_get h a of
        Some (ODict kvs) \<Rightarrow>
          (case json_dump_items n h kvs of Inl e \<Rightarrow> Inl e | Inr fields \<Rightarrow> Inr (JObj fields))
      | Some (OList vs) \<Rightarrow>
          (case json_dump_list n h vs of Inl e \<Rightarrow> Inl e | Inr js \<Rightarrow> Inr (JArr js))
      | None \<Rightarrow> Inl TypeError)"
| "json_dump 0 h (VRef a) = Inl RecursionError"
| "json_dump n h VNone = Inr JNull"
| "json_dump n h (VBool b) = Inr (JBool b)"
| "json_dump n h (VInt i) = Inr (JInt i)"
| "json_dump n h (VFloat f) = Inr (JFloat f)"
| "json_dump n h (VStr s) = Inr (JStr s)"
| "json_dump_list n h [] = Inr []"
| "json_dump_list n h (v # vs) =
     (case json_dump n h v of
        Inl e \<Rightarrow> Inl e
      | Inr j \<Rightarrow> (case json_dump_list n h vs of Inl e \<Rightarrow> Inl e | Inr js \<Rightarrow> Inr (j # js)))"
| "json_dump_items n h [] = Inr []"
| "json_dump_items n h ((k, v) # kvs) =
     (case json_dump n h v of
        Inl e \<Rightarrow> Inl e
      | Inr j \<Rightarrow>
          (case json_dump_items n h kvs of
             Inl e \<Rightarrow> Inl e
           | Inr fields \<Rightarrow> Inr ((key_text k, j) # fields)))"
  by pat_completeness auto
termination
  by (relation "measures [\<lambda>x. case x of Inl (n, _) \<Rightarrow> n | Inr (Inl (n, _)) \<Rightarrow> n | Inr (Inr (n, _)) \<Rightarrow> n,
                          \<lambda>x. case x of Inl _ \<Rightarrow> 0 | Inr (Inl (n, h, vs)) \<Rightarrow> Suc (length vs)
                                          | Inr (Inr (n, h, kvs)) \<Rightarrow> Suc (length kvs)]") auto

section \<open>Substitution\<close>

subsection \<open>\<^verbatim>\<open>get_deepest_key_object\<close>\<close>

text \<open>
  With no keys the result is the pair of a new wrapper \<^verbatim>\<open>{0: root_object}\<close> and the key 0;
  otherwise the keys but the last are followed from \<^verbatim>\<open>root_object\<close>.  A key list that is
  \<^verbatim>\<open>None\<close> takes the same branch as the empty one and is written \<open>[]\<close>.
\<close>

fun follow_keys :: "heap \<Rightarrow> val \<Rightarrow> key \<Rightarrow> key list \<Rightarrow> error + (val \<times> key)" where
  "follow_keys h parent_object k [] = Inr (parent_object, k)"
| "follow_keys h parent_object k (k' # ks) =
     (case subscript h parent_object k of
        Inl e \<Rightarrow> Inl e
      | Inr parent_object' \<Rightarrow> follow_keys h parent_object' k' ks)"

definition get_deepest_key_object :: "val \<Rightarrow> key list \<Rightarrow> heap \<Rightarrow> (val \<times> key) res" where
  "get_deepest_key_object root_object keys h =
     (case keys of
        [] \<Rightarrow>
          (case alloc (ODict [(KInt 0, root_object)]) h of
             (a, h1) \<Rightarrow> (Inr (VRef a, KInt 0), h1))
      | k # ks \<Rightarrow>
          (case follow_keys h root_object k ks of
             Inl e \<Rightarrow> (Inl e, h)
           | Inr r \<Rightarrow> (Inr r, h)))"

subsection \<open>\<^verbatim>\<open>replace_parameter_with_data\<close>\<close>

text \<open>
  The conversions of \<^verbatim>\<open>float\<close> and of the two \<^verbatim>\<open>datetime\<close> formats belong to Python's
  library; they are parameters of the model, \<open>None\<close> standing for \<^verbatim>\<open>ValueError\<close>:
  \<open>float_of_str\<close> is \<^verbatim>\<open>float(data)\<close>, \<open>datetime_ymd\<close> is
  \<^verbatim>\<open>strptime(data, '%Y-%m-%d').strftime('%Y-%m-%dT%H:%M:%SZ')\<close> and \<open>datetime_mdy\<close> is
  \<^verbatim>\<open>strptime(data, '%m/%d/%Y').isoformat()\<close>.  The last field is the
  \<^verbatim>\<open>json.loads(json.dumps(obj).replace(name, value))\<close> of \<^verbatim>\<open>replace_json_namespace\<close>, a
  function of the document and the two strings (\<open>None\<close> when the text no longer parses).
\<close>

record env =
  float_of_str :: "string \<Rightarrow> pyfloat option"
  datetime_ymd :: "string \<Rightarrow> string option"
  datetime_mdy :: "string \<Rightarrow> string option"
  json_text_replace :: "json \<Rightarrow> string \<Rightarrow> string \<Rightarrow> json option"

text \<open>
  \<^verbatim>\<open>int(data)\<close> on a stripped string: an optional sign, then decimal digits, which single
  underscores may separate, and no more digits than the limit.
\<close>

fun digits_ok :: "bool \<Rightarrow> string \<Rightarrow> bool" where
  "digits_ok after_digit [] = after_digit"
| "digits_ok after_digit (c # s) =
     (if isdigit c then digits_ok True s
      else if c = CHR ''_'' \<and> after_digit then (s \<noteq> [] \<and> isdigit (hd s) \<and> digits_ok False s)
      else False)"

definition py_int :: "string \<Rightarrow> int option" where
  "py_int data =
     (let s = py_strip data;
          (neg, body) = (case s of
                           c # r \<Rightarrow> if c = CHR ''-'' then (True, r)
                                    else if c = CHR ''+'' then (False, r) else (False, s)
                         | [] \<Rightarrow> (False, s))
      in if digits_ok False body \<and> length (filter isdigit body) \<le> max_str_digits
         then (let n = int (digits_to_nat (filter (\<lambda>c. c \<noteq> CHR ''_'') body))
               in Some (if neg then - n else n))
         else None)"

definition typed_functions :: "string list" where
  "typed_functions = [''int'', ''float'', ''bool'', ''datetime_YYYY-MM-DD'', ''datetime_MM/DD/YYYY'']"

text \<open>
  \<^verbatim>\<open>re.fullmatch(r'(int|float|bool|datetime_YYYY-MM-DD|datetime_MM/DD/YYYY)\(' +
  re.escape(parameter) + r'\)', s)\<close>.
\<close>

definition fullmatch_typed :: "string \<Rightarrow> string \<Rightarrow> bool" where
  "fullmatch_typed parameter s =
     (s \<in> set (map (\<lambda>f. f @ ''('' @ parameter @ '')'') typed_functions))"

definition bool_words :: "string list" where
  "bool_words = [''true'', ''yes'', ''y'', ''t'', ''1'']"

text \<open>
  The \<^verbatim>\<open>if\<close>/\<^verbatim>\<open>elif\<close> chain on \<^verbatim>\<open>result.startswith\<close>.  The result \<open>None\<close> is the chain that
  matched no branch: then nothing is assigned.
\<close>

definition typed_value :: "env \<Rightarrow> string \<Rightarrow> string \<Rightarrow> error + val option" where
  "typed_value ev result data =
     (if startswith result ''bool'' then Inr (Some (VBool (py_lower data \<in> set bool_words)))
      else if startswith result ''datetime_YYYY-MM-DD'' then
        (case datetime_ymd ev data of None \<Rightarrow> Inl ValueError | Some t \<Rightarrow> Inr (Some (VStr t)))
      else if startswith result ''datetime_MM/DD/YYYY'' then
        (case datetime_mdy ev data of None \<Rightarrow> Inl ValueError | Some t \<Rightarrow> Inr (Some (VStr t)))
      else if startswith result ''int'' then
        (case py_int data of None \<Rightarrow> Inl ValueError | Some i \<Rightarrow> Inr (Some (VInt i)))
      else if startswith result ''float'' then
        (case float_of_str ev data of None \<Rightarrow> Inl ValueError | Some f \<Rightarrow> Inr (Some (VFloat f)))
      else Inr None)"

text \<open>
  \<open>col_index\<close> is what the caller passes: \<^verbatim>\<open>None\<close>, a column index, or (when a placeholder
  bound to an array is also met outside every array) a list, which \<^verbatim>\<open>col_index > -1\<close>
  rejects with \<^verbatim>\<open>TypeError\<close>.  \<open>cell_data\<close> is the first statement, up to \<^verbatim>\<open>strip()\<close>.
\<close>

definition cell_data :: "string list \<Rightarrow> binding option \<Rightarrow> error + string" where
  "cell_data data_row col_index =
     (case col_index of
        None \<Rightarrow> Inr []
      | Some (BArray l) \<Rightarrow> Inl TypeError
      | Some (BScalar c) \<Rightarrow>
          if c < length data_row then Inr (py_strip (data_row ! c)) else Inl IndexError)"

definition replace_parameter_with_data ::
  "env \<Rightarrow> val \<Rightarrow> key list \<Rightarrow> string \<Rightarrow> string list \<Rightarrow> binding option \<Rightarrow> heap \<Rightarrow> unit res" where
  "replace_parameter_with_data ev root_object keys parameter data_row col_index h =
     (case cell_data data_row col_index of
        Inl e \<Rightarrow> (Inl e, h)
      | Inr data \<Rightarrow>
          if length data = 0 then (Inr (), h)
          else
            (case get_deepest_key_object root_object keys h of
               (Inl e, h1) \<Rightarrow> (Inl e, h1)
             | (Inr (parent_object, k), h1) \<Rightarrow>
                 (case subscript h1 parent_object k of
                    Inl e \<Rightarrow> (Inl e, h1)
                  | Inr (VStr leaf) \<Rightarrow>
                      (let result = py_replace leaf parameter data in
                       if fullmatch_typed parameter (py_strip leaf) then
                         (case typed_value ev result data of
                            Inl e \<Rightarrow> (Inl e, h1)
                          | Inr None \<Rightarrow> (Inr (), h1)
                          | Inr (Some x) \<Rightarrow> setitem parent_object k x h1)
                       else setitem parent_object k (VStr result) h1)
                  | Inr _ \<Rightarrow> (Inl AttributeError, h1))))"

subsection \<open>\<^verbatim>\<open>get_root_object\<close>\<close>

text \<open>
  \<^verbatim>\<open>while len(array_object) <= index: array_object.append(copy.deepcopy(template))\<close>.
  Each round appends one element, so the loop runs \<open>index + 1 - len(array_object)\<close> times;
  \<open>append_copies\<close> counts them down.
\<close>

fun append_copies :: "nat \<Rightarrow> nat \<Rightarrow> nat \<Rightarrow> val \<Rightarrow> heap \<Rightarrow> unit res" where
  "append_copies n 0 a child_object_template h = (Inr (), h)"
| "append_copies n (Suc m) a child_object_template h =
     (case deepcopy n child_object_template h of
        (Inl e, h1) \<Rightarrow> (Inl e, h1)
      | (Inr v, h1) \<Rightarrow>
          (case heap_get h1 a of
             Some (OList xs) \<Rightarrow>
               append_copies n m a child_object_template (heap_set a (OList (xs @ [v])) h1)
           | _ \<Rightarrow> (Inl AttributeError, h1)))"

definition grow_array :: "nat \<Rightarrow> val \<Rightarrow> nat \<Rightarrow> val \<Rightarrow> heap \<Rightarrow> unit res" where
  "grow_array n array_object index child_object_template h =
     (case py_len h array_object of
        Inl e \<Rightarrow> (Inl e, h)
      | Inr l \<Rightarrow>
          if l \<le> index then
            (case array_object of
               VRef a \<Rightarrow>
                 (case heap_get h a of
                    Some (OList xs) \<Rightarrow> append_copies n (Suc index - l) a child_object_template h
                  | _ \<Rightarrow> (Inl AttributeError, h))
             | _ \<Rightarrow> (Inl AttributeError, h))
          else (Inr (), h))"

text \<open>
  The body of \<^verbatim>\<open>for i in range(len(indexes))\<close>.  The second argument holds the entries
  \<^verbatim>\<open>root_object_key_list[i+1:]\<close> still to come, so its head is \<^verbatim>\<open>root_object_key_list[i+1]\<close>.
\<close>

fun get_root_object_loop ::
  "nat \<Rightarrow> nat list \<Rightarrow> anchor list \<Rightarrow> val \<Rightarrow> val \<Rightarrow> key list \<Rightarrow> heap \<Rightarrow> (val \<times> key list) res" where
  "get_root_object_loop n [] rest array_object return_root return_keys h =
     (Inr (return_root, return_keys), h)"
| "get_root_object_loop n (index # indexes) rest array_object return_root return_keys h =
     (case rest of
        [] \<Rightarrow> (Inl IndexError, h)
      | (child_object, child_keys0) # rest' \<Rightarrow>
          (case child_keys0 of
             [] \<Rightarrow> (Inl IndexError, h)
           | k0 # child_keys_tl \<Rightarrow>
               (case (if k0 = KInt 0
                      then (case subscript h (VRef child_object) k0 of
                              Inl e \<Rightarrow> Inl e
                            | Inr t \<Rightarrow> Inr (t, child_keys_tl))
                      else Inr (VRef child_object, child_keys0)) of
                  Inl e \<Rightarrow> (Inl e, h)
                | Inr (child_object_template, child_keys) \<Rightarrow>
                    (case grow_array n array_object index child_object_template h of
                       (Inl e, h1) \<Rightarrow> (Inl e, h1)
                     | (Inr u, h1) \<Rightarrow>
                         (case subscript h1 array_object (KInt index) of
                            Inl e \<Rightarrow> (Inl e, h1)
                          | Inr element \<Rightarrow>
                              (case (if type_of h1 element = TStr
                                     then (array_object, [KInt index])
                                     else (element, child_keys)) of
                                 (return_root', return_keys') \<Rightarrow>
                                   (case get_deepest_key_object return_root' return_keys' h1 of
                                      (Inl e, h2) \<Rightarrow> (Inl e, h2)
                                    | (Inr (parent_object, k), h2) \<Rightarrow>
                                        (case subscript h2 parent_object k of
                                           Inl e \<Rightarrow> (Inl e, h2)
                                         | Inr array_object' \<Rightarrow>
                                             get_root_object_loop n indexes rest' array_object'
                                               return_root' return_keys' h2))))))))"

definition get_root_object ::
  "nat \<Rightarrow> anchor list \<Rightarrow> nat list \<Rightarrow> heap \<Rightarrow> (val \<times> key list) res" where
  "get_root_object n root_object_key_list indexes h =
     (case root_object_key_list of
        [] \<Rightarrow> (Inl IndexError, h)
      | (root_object, root_keys) # rest \<Rightarrow>
          (case get_deepest_key_object (VRef root_object) root_keys h of
             (Inl e, h1) \<Rightarrow> (Inl e, h1)
           | (Inr (parent_object, k), h1) \<Rightarrow>
               (case subscript h1 parent_object k of
                  Inl e \<Rightarrow> (Inl e, h1)
                | Inr array_object \<Rightarrow>
                    get_root_object_loop n indexes rest array_object VNone [] h1)))"

section \<open>Cleaning up\<close>

subsection \<open>\<^verbatim>\<open>clear_non_filled_parameters\<close>\<close>

text \<open>
  A string still holds a placeholder when both delimiters are found in it
  (\<^verbatim>\<open>find(...) >= 0\<close> for each).
\<close>

definition has_parameter :: "string \<Rightarrow> bool" where
  "has_parameter s =
     (py_find s parameter_start_delimiter \<noteq> None \<and> py_find s parameter_end_delimiter \<noteq> None)"

text \<open>
  \<^verbatim>\<open>is_item_empty\<close>: a dict or list all of whose values are empty in turn (the loop stops
  at the first value that is not); a scalar is never empty.
\<close>

function (sequential) is_item_empty :: "nat \<Rightarrow> heap \<Rightarrow> val \<Rightarrow> error + bool"
  and all_items_empty :: "nat \<Rightarrow> heap \<Rightarrow> val list \<Rightarrow> error + bool" where
  "is_item_empty (Suc n) h (VRef a) =
     (case heap_get h a of
        Some (ODict kvs) \<Rightarrow> all_items_empty n h (map snd kvs)
      | Some (OList xs) \<Rightarrow> all_items_empty n h xs
      | None \<Rightarrow> Inr False)"
| "is_item_empty 0 h (VRef a) = Inl RecursionError"
| "is_item_empty n h v = Inr False"
| "all_items_empty n h [] = Inr True"
| "all_items_empty n h (v # vs) =
     (case is_item_empty n h v of
        Inl e \<Rightarrow> Inl e
      | Inr False \<Rightarrow> Inr False
      | Inr True \<Rightarrow> all_items_empty n h vs)"
  by pat_completeness auto
termination
  by (relation "measures [\<lambda>x. case x of Inl (n, _) \<Rightarrow> n | Inr (n, _) \<Rightarrow> n,
                          \<lambda>x. case x of Inl _ \<Rightarrow> 0 | Inr (n, h, vs) \<Rightarrow> Suc (length vs)]") auto

text \<open>
  The second loop of \<^verbatim>\<open>clear_list\<close>, \<^verbatim>\<open>for i in range(len(lst) - 1, -1, -1)\<close>: the third
  argument is \<open>i + 1\<close>.
\<close>

fun remove_empty_items :: "nat \<Rightarrow> nat \<Rightarrow> nat \<Rightarrow> heap \<Rightarrow> unit res" where
  "remove_empty_items n a 0 h = (Inr (), h)"
| "remove_empty_items n a (Suc i) h =
     (case heap_get h a of
        Some (OList xs) \<Rightarrow>
          if i < length xs then
            (case is_item_empty n h (xs ! i) of
               Inl e \<Rightarrow> (Inl e, h)
             | Inr True \<Rightarrow> remove_empty_items n a i (heap_set a (OList (take i xs @ drop (Suc i) xs)) h)
             | Inr False \<Rightarrow> remove_empty_items n a i h)
          else (Inl IndexError, h)
      | _ \<Rightarrow> (Inl TypeError, h))"

text \<open>
  \<^verbatim>\<open>clear_dict\<close> collects the keys to delete while it walks the items and deletes them
  afterwards; \<^verbatim>\<open>clear_list\<close> deletes as it goes down from the last index, then removes
  the items that are empty.  \<open>clear_dict_items\<close> and \<open>clear_list_items\<close> are the bodies of
  the two \<^verbatim>\<open>for\<close> loops.
\<close>

function (sequential) clear_dict :: "nat \<Rightarrow> nat \<Rightarrow> heap \<Rightarrow> unit res"
  and clear_dict_items :: "nat \<Rightarrow> (key \<times> val) list \<Rightarrow> key list \<Rightarrow> heap \<Rightarrow> (key list) res"
  and clear_list :: "nat \<Rightarrow> nat \<Rightarrow> heap \<Rightarrow> unit res"
  and clear_list_items :: "nat \<Rightarrow> nat \<Rightarrow> nat \<Rightarrow> heap \<Rightarrow> unit res" where
  "clear_dict 0 d h = (Inl RecursionError, h)"
| "clear_dict (Suc n) d h =
     (case heap_get h d of
        Some (ODict kvs) \<Rightarrow>
          (case clear_dict_items n kvs [] h of
             (Inl e, h1) \<Rightarrow> (Inl e, h1)
           | (Inr to_be_deleted, h1) \<Rightarrow>
               (case heap_get h1 d of
                  Some (ODict kvs1) \<Rightarrow>
                    (Inr (), heap_set d (ODict (foldl dict_del kvs1 to_be_deleted)) h1)
                | _ \<Rightarrow> (Inl TypeError, h1)))
      | _ \<Rightarrow> (Inl AttributeError, h))"
| "clear_dict_items n [] to_be_deleted h = (Inr to_be_deleted, h)"
| "clear_dict_items n ((k, v) # kvs) to_be_deleted h =
     (case v of
        VRef b \<Rightarrow>
          (case heap_get h b of
             Some (ODict items) \<Rightarrow>
               (case clear_dict n b h of
                  (Inl e, h1) \<Rightarrow> (Inl e, h1)
                | (Inr u, h1) \<Rightarrow>
                    clear_dict_items n kvs
                      (if py_len h1 v = Inr 0 then to_be_deleted @ [k] else to_be_deleted) h1)
           | Some (OList items) \<Rightarrow>
               (case clear_list n b h of
                  (Inl e, h1) \<Rightarrow> (Inl e, h1)
                | (Inr u, h1) \<Rightarrow>
                    clear_dict_items n kvs
                      (if py_len h1 v = Inr 0 then to_be_deleted @ [k] else to_be_deleted) h1)
           | None \<Rightarrow> clear_dict_items n kvs to_be_deleted h)
      | VStr s \<Rightarrow>
          clear_dict_items n kvs (if has_parameter s then to_be_deleted @ [k] else to_be_deleted) h
      | _ \<Rightarrow> clear_dict_items n kvs to_be_deleted h)"
| "clear_list 0 l h = (Inl RecursionError, h)"
| "clear_list (Suc n) l h =
     (case heap_get h l of
        Some (OList xs) \<Rightarrow>
          (case clear_list_items n l (length xs) h of
             (Inl e, h1) \<Rightarrow> (Inl e, h1)
           | (Inr u, h1) \<Rightarrow>
               (case heap_get h1 l of
                  Some (OList xs1) \<Rightarrow> remove_empty_items n l (length xs1) h1
                | _ \<Rightarrow> (Inl TypeError, h1)))
      | _ \<Rightarrow> (Inl TypeError, h))"
| "clear_list_items n l 0 h = (Inr (), h)"
| "clear_list_items n l (Suc i) h =
     (case heap_get h l of
        Some (OList xs) \<Rightarrow>
          if i < length xs then
            (case xs ! i of
               VRef b \<Rightarrow>
                 (case heap_get h b of
                    Some (ODict items) \<Rightarrow>
                      (case clear_dict n b h of
                         (Inl e, h1) \<Rightarrow> (Inl e, h1)
                       | (Inr u, h1) \<Rightarrow> clear_list_items n l i h1)
                  | Some (OList items) \<Rightarrow>
                      (case clear_list n b h of
                         (Inl e, h1) \<Rightarrow> (Inl e, h1)
                       | (Inr u, h1) \<Rightarrow> clear_list_items n l i h1)
                  | None \<Rightarrow> clear_list_items n l i h)
             | VStr s \<Rightarrow>
                 if has_parameter s
                 then clear_list_items n l i (heap_set l (OList (take i xs @ drop (Suc i) xs)) h)
                 else clear_list_items n l i h
             | _ \<Rightarrow> clear_list_items n l i h)
          else (Inl IndexError, h)
      | _ \<Rightarrow> (Inl TypeError, h))"
  by pat_completeness auto
termination
  by (relation "measures
       [\<lambda>x. case x of Inl (Inl (n, _)) \<Rightarrow> n | Inl (Inr (n, _)) \<Rightarrow> n
                     | Inr (Inl (n, _)) \<Rightarrow> n | Inr (Inr (n, _)) \<Rightarrow> n,
        \<lambda>x. case x of Inl (Inl _) \<Rightarrow> 0 | Inl (Inr (n, kvs, _)) \<Rightarrow> Suc (length kvs)
                     | Inr (Inl _) \<Rightarrow> 0 | Inr (Inr (n, l, i, _)) \<Rightarrow> Suc i]") auto

definition clear_non_filled_parameters :: "nat \<Rightarrow> val \<Rightarrow> heap \<Rightarrow> unit res" where
  "clear_non_filled_parameters n ldm h =
     (case ldm of VRef d \<Rightarrow> clear_dict n d h | _ \<Rightarrow> (Inl AttributeError, h))"

subsection \<open>\<^verbatim>\<open>remove_special_tags\<close>\<close>

text \<open>
  \<^verbatim>\<open>pattern_remove.sub('', key)\<close>: every occurrence of \<^verbatim>\<open>$$_oneOf_<n>$$\<close> or
  \<^verbatim>\<open>$$_anyOf_<n>$$\<close>, \<open>n\<close> a decimal number without a leading zero, is removed.
  \<open>tag_match_length\<close> is the length of the match at the start of the string, if any.
\<close>

definition tag_match_length :: "string \<Rightarrow> nat option" where
  "tag_match_length s =
     (if startswith s ''$$_oneOf_'' \<or> startswith s ''$$_anyOf_'' then
        (case drop 9 s of
           c # r \<Rightarrow>
             if isdigit c \<and> c \<noteq> CHR ''0'' \<and> startswith (dropWhile isdigit r) ''$$''
             then Some (9 + 1 + length (takeWhile isdigit r) + 2)
             else None
         | [] \<Rightarrow> None)
      else None)"

fun pattern_remove_sub :: "string \<Rightarrow> nat \<Rightarrow> string" where
  "pattern_remove_sub [] k = []"
| "pattern_remove_sub (c # s) (Suc k) = pattern_remove_sub s k"
| "pattern_remove_sub (c # s) 0 =
     (case tag_match_length (c # s) of
        Some l \<Rightarrow> pattern_remove_sub s (l - 1)
      | None \<Rightarrow> c # pattern_remove_sub s 0)"

text \<open>
  The second loop of \<^verbatim>\<open>remove_dict_tags\<close>: a key whose stripped form is present with a
  value other than \<^verbatim>\<open>None\<close> raises; otherwise \<^verbatim>\<open>d[new_key] = d.pop(old_key)\<close>.
\<close>

fun replace_keys ::
  "(key \<times> key) list \<Rightarrow> (key \<times> val) list \<Rightarrow> (error + unit) \<times> (key \<times> val) list" where
  "replace_keys [] kvs = (Inr (), kvs)"
| "replace_keys ((old_key, new_key) # to_be_replaced) kvs =
     (case dict_get kvs new_key of
        Some (VRef a) \<Rightarrow> (Inl (DuplicateAttributes (key_text old_key)), kvs)
      | Some (VBool b) \<Rightarrow> (Inl (DuplicateAttributes (key_text old_key)), kvs)
      | Some (VInt i) \<Rightarrow> (Inl (DuplicateAttributes (key_text old_key)), kvs)
      | Some (VFloat f) \<Rightarrow> (Inl (DuplicateAttributes (key_text old_key)), kvs)
      | Some (VStr s) \<Rightarrow> (Inl (DuplicateAttributes (key_text old_key)), kvs)
      | _ \<Rightarrow>
          (case dict_get kvs old_key of
             None \<Rightarrow> (Inl KeyError, kvs)
           | Some v \<Rightarrow> replace_keys to_be_replaced (dict_set (dict_del kvs old_key) new_key v)))"

function (sequential) remove_dict_tags :: "nat \<Rightarrow> nat \<Rightarrow> heap \<Rightarrow> unit res"
  and remove_dict_items ::
    "nat \<Rightarrow> (key \<times> val) list \<Rightarrow> (key \<times> key) list \<Rightarrow> heap \<Rightarrow> ((key \<times> key) list) res"
  and remove_list_tags :: "nat \<Rightarrow> nat \<Rightarrow> heap \<Rightarrow> unit res"
  and remove_list_items :: "nat \<Rightarrow> val list \<Rightarrow> heap \<Rightarrow> unit res" where
  "remove_dict_tags 0 d h = (Inl RecursionError, h)"
| "remove_dict_tags (Suc n) d h =
     (case heap_get h d of
        Some (ODict kvs) \<Rightarrow>
          (case remove_dict_items n kvs [] h of
             (Inl e, h1) \<Rightarrow> (Inl e, h1)
           | (Inr to_be_replaced, h1) \<Rightarrow>
               (case heap_get h1 d of
                  Some (ODict kvs1) \<Rightarrow>
                    (case replace_keys to_be_replaced kvs1 of
                       (r, kvs2) \<Rightarrow> (r, heap_set d (ODict kvs2) h1))
                | _ \<Rightarrow> (Inl TypeError, h1)))
      | _ \<Rightarrow> (Inl AttributeError, h))"
| "remove_dict_items n [] to_be_replaced h = (Inr to_be_replaced, h)"
| "remove_dict_items n ((k, v) # kvs) to_be_replaced h =
     (case k of
        KInt i \<Rightarrow> (Inl TypeError, h)
      | KStr s \<Rightarrow>
          (let new_key = pattern_remove_sub s 0;
               to_be_replaced' =
                 (if new_key \<noteq> s then dict_set to_be_replaced k (KStr new_key) else to_be_replaced)
           in case v of
                VRef b \<Rightarrow>
                  (case heap_get h b of
                     Some (ODict items) \<Rightarrow>
                       (case remove_dict_tags n b h of
                          (Inl e, h1) \<Rightarrow> (Inl e, h1)
                        | (Inr u, h1) \<Rightarrow> remove_dict_items n kvs to_be_replaced' h1)
                   | Some (OList items) \<Rightarrow>
                       (case remove_list_tags n b h of
                          (Inl e, h1) \<Rightarrow> (Inl e, h1)
                        | (Inr u, h1) \<Rightarrow> remove_dict_items n kvs to_be_replaced' h1)
                   | None \<Rightarrow> remove_dict_items n kvs to_be_replaced' h)
              | _ \<Rightarrow> remove_dict_items n kvs to_be_replaced' h))"
| "remove_list_tags 0 l h = (Inl RecursionError, h)"
| "remove_list_tags (Suc n) l h =
     (case heap_get h l of
        Some (OList xs) \<Rightarrow> remove_list_items n xs h
      | _ \<Rightarrow> (Inl TypeError, h))"
| "remove_list_items n [] h = (Inr (), h)"
| "remove_list_items n (v # vs) h =
     (case v of
        VRef b \<Rightarrow>
          (case heap_get h b of
             Some (ODict items) \<Rightarrow>
               (case remove_dict_tags n b h of
                  (Inl e, h1) \<Rightarrow> (Inl e, h1)
                | (Inr u, h1) \<Rightarrow> remove_list_items n vs h1)
           | Some (OList items) \<Rightarrow>
               (case remove_list_tags n b h of
                  (Inl e, h1) \<Rightarrow> (Inl e, h1)
                | (Inr u, h1) \<Rightarrow> remove_list_items n vs h1)
           | None \<Rightarrow> remove_list_items n vs h)
      | _ \<Rightarrow> remove_list_items n vs h)"
  by pat_completeness auto
termination
  by (relation "measures
       [\<lambda>x. case x of Inl (Inl (n, _)) \<Rightarrow> n | Inl (Inr (n, _)) \<Rightarrow> n
                     | Inr (Inl (n, _)) \<Rightarrow> n | Inr (Inr (n, _)) \<Rightarrow> n,
        \<lambda>x. case x of Inl (Inl _) \<Rightarrow> 0 | Inl (Inr (n, kvs, _)) \<Rightarrow> Suc (length kvs)
                     | Inr (Inl _) \<Rightarrow> 0 | Inr (Inr (n, vs, _)) \<Rightarrow> Suc (length vs)]") auto

definition remove_special_tags :: "nat \<Rightarrow> val \<Rightarrow> heap \<Rightarrow> unit res" where
  "remove_special_tags n ldm h =
     (case ldm of VRef d \<Rightarrow> remove_dict_tags n d h | _ \<Rightarrow> (Inl AttributeError, h))"

subsection \<open>\<^verbatim>\<open>add_required_fields\<close>\<close>

definition tag_optional_field :: string where
  "tag_optional_field = ''$''"

text \<open>
  What \<^verbatim>\<open>add_fields_dict\<close> stores for a key that is missing: a new empty dict or list for
  a dict or a list of the template, the value itself otherwise.
\<close>

definition default_for :: "val \<Rightarrow> heap \<Rightarrow> val \<times> heap" where
  "default_for v_src h =
     (case type_of h v_src of
        TDict \<Rightarrow> (case alloc (ODict []) h of (a, h1) \<Rightarrow> (VRef a, h1))
      | TList \<Rightarrow> (case alloc (OList []) h of (a, h1) \<Rightarrow> (VRef a, h1))
      | _ \<Rightarrow> (v_src, h))"

text \<open>
  The first \<^verbatim>\<open>if\<close> of the loop body of \<^verbatim>\<open>add_fields_dict\<close>: a key that is not optional and
  not in \<^verbatim>\<open>des_dict\<close> is added with its default.
\<close>

definition add_missing_field :: "nat \<Rightarrow> key \<Rightarrow> val \<Rightarrow> bool \<Rightarrow> heap \<Rightarrow> unit res" where
  "add_missing_field des_dict k v_src optional_field h =
     (case heap_get h des_dict of
        Some (ODict des_items) \<Rightarrow>
          if dict_get des_items k = None \<and> \<not> optional_field
          then (case default_for v_src h of
                  (x, h1) \<Rightarrow> (Inr (), heap_set des_dict (ODict (dict_set des_items k x)) h1))
          else (Inr (), h)
      | _ \<Rightarrow> (Inl TypeError, h))"

text \<open>
  The two type tests \<^verbatim>\<open>type(v_src) == type(v_des)\<close> and \<^verbatim>\<open>type(v_src) is dict\<close> (or
  \<^verbatim>\<open>list\<close>) select a pair of dicts, a pair of lists, or nothing to descend into.
\<close>

datatype descent = BothDicts nat nat | BothLists nat nat | NoDescent

definition descent_of :: "heap \<Rightarrow> val \<Rightarrow> val \<Rightarrow> descent" where
  "descent_of h v_des v_src =
     (case (v_des, v_src) of
        (VRef a_des, VRef a_src) \<Rightarrow>
          if type_of h v_src = TDict \<and> type_of h v_des = TDict then BothDicts a_des a_src
          else if type_of h v_src = TList \<and> type_of h v_des = TList then BothLists a_des a_src
          else NoDescent
      | _ \<Rightarrow> NoDescent)"

text \<open>\<^verbatim>\<open>des_dict.get(k, None)\<close>.\<close>

definition dict_get_or_none :: "heap \<Rightarrow> nat \<Rightarrow> key \<Rightarrow> val" where
  "dict_get_or_none h d k =
     (case heap_get h d of
        Some (ODict kvs) \<Rightarrow> (case dict_get kvs k of Some v \<Rightarrow> v | None \<Rightarrow> VNone)
      | _ \<Rightarrow> VNone)"

text \<open>
  \<open>add_fields_items\<close> is the loop of \<^verbatim>\<open>add_fields_dict\<close> over \<^verbatim>\<open>src_dict.items()\<close>;
  \<open>add_fields_outer\<close> and \<open>add_fields_inner\<close> are the two nested loops of
  \<^verbatim>\<open>add_fields_list\<close>.  A key of the template that is not a string has no
  \<^verbatim>\<open>startswith\<close>.
\<close>

function (sequential) add_fields_dict :: "nat \<Rightarrow> nat \<Rightarrow> nat \<Rightarrow> heap \<Rightarrow> unit res"
  and add_fields_items :: "nat \<Rightarrow> nat \<Rightarrow> (key \<times> val) list \<Rightarrow> heap \<Rightarrow> unit res"
  and add_fields_list :: "nat \<Rightarrow> nat \<Rightarrow> nat \<Rightarrow> heap \<Rightarrow> unit res"
  and add_fields_outer :: "nat \<Rightarrow> val list \<Rightarrow> val list \<Rightarrow> heap \<Rightarrow> unit res"
  and add_fields_inner :: "nat \<Rightarrow> val \<Rightarrow> val list \<Rightarrow> heap \<Rightarrow> unit res" where
  "add_fields_dict 0 des_dict src_dict h = (Inl RecursionError, h)"
| "add_fields_dict (Suc n) des_dict src_dict h =
     (case heap_get h src_dict of
        Some (ODict src_items) \<Rightarrow> add_fields_items n des_dict src_items h
      | _ \<Rightarrow> (Inl AttributeError, h))"
| "add_fields_items n des_dict [] h = (Inr (), h)"
| "add_fields_items n des_dict ((KInt i, v_src) # src_items) h = (Inl AttributeError, h)"
| "add_fields_items n des_dict ((KStr s, v_src) # src_items) h =
     (let optional_field = startswith s tag_optional_field;
          k = KStr (if optional_field then drop (length tag_optional_field) s else s)
      in case add_missing_field des_dict k v_src optional_field h of
           (Inl e, h1) \<Rightarrow> (Inl e, h1)
         | (Inr u, h1) \<Rightarrow>
             (case descent_of h1 (dict_get_or_none h1 des_dict k) v_src of
                BothDicts v_des a_src \<Rightarrow>
                  (case add_fields_dict n v_des a_src h1 of
                     (Inl e, h2) \<Rightarrow> (Inl e, h2)
                   | (Inr u, h2) \<Rightarrow> add_fields_items n des_dict src_items h2)
              | BothLists v_des a_src \<Rightarrow>
                  (case add_fields_list n v_des a_src h1 of
                     (Inl e, h2) \<Rightarrow> (Inl e, h2)
                   | (Inr u, h2) \<Rightarrow> add_fields_items n des_dict src_items h2)
              | NoDescent \<Rightarrow> add_fields_items n des_dict src_items h1))"
| "add_fields_list 0 des_list src_list h = (Inl RecursionError, h)"
| "add_fields_list (Suc n) des_list src_list h =
     (case (heap_get h src_list, heap_get h des_list) of
        (Some (OList src_items), Some (OList des_items)) \<Rightarrow>
          if length src_items = 0 \<or> length des_items = 0 then (Inr (), h)
          else add_fields_outer n src_items des_items h
      | _ \<Rightarrow> (Inl TypeError, h))"
| "add_fields_outer n [] des_items h = (Inr (), h)"
| "add_fields_outer n (item_src # src_items) des_items h =
     (case add_fields_inner n item_src des_items h of
        (Inl e, h1) \<Rightarrow> (Inl e, h1)
      | (Inr u, h1) \<Rightarrow> add_fields_outer n src_items des_items h1)"
| "add_fields_inner n item_src [] h = (Inr (), h)"
| "add_fields_inner n item_src (item_des # des_items) h =
     (case descent_of h item_des item_src of
        BothDicts a_des a_src \<Rightarrow>
          (case add_fields_dict n a_des a_src h of
             (Inl e, h1) \<Rightarrow> (Inl e, h1)
           | (Inr u, h1) \<Rightarrow> add_fields_inner n item_src des_items h1)
      | BothLists a_des a_src \<Rightarrow>
          (case add_fields_list n a_des a_src h of
             (Inl e, h1) \<Rightarrow> (Inl e, h1)
           | (Inr u, h1) \<Rightarrow> add_fields_inner n item_src des_items h1)
      | NoDescent \<Rightarrow> add_fields_inner n item_src des_items h)"
  by pat_completeness auto
termination
  by (relation "measures
       [\<lambda>x. case x of Inl (Inl (n, _)) \<Rightarrow> n | Inl (Inr (n, _)) \<Rightarrow> n
                     | Inr (Inl (n, _)) \<Rightarrow> n | Inr (Inr (Inl (n, _))) \<Rightarrow> n
                     | Inr (Inr (Inr (n, _))) \<Rightarrow> n,
        \<lambda>x. case x of Inl (Inl _) \<Rightarrow> 0 | Inl (Inr _) \<Rightarrow> 1
                     | Inr (Inl _) \<Rightarrow> 0 | Inr (Inr (Inl _)) \<Rightarrow> 2
                     | Inr (Inr (Inr _)) \<Rightarrow> 1,
        \<lambda>x. case x of Inl (Inl _) \<Rightarrow> 0 | Inl (Inr (n, d, kvs, _)) \<Rightarrow> length kvs
                     | Inr (Inl _) \<Rightarrow> 0 | Inr (Inr (Inl (n, ss, _))) \<Rightarrow> length ss
                     | Inr (Inr (Inr (n, s, ds, _))) \<Rightarrow> length ds]") auto

text \<open>
  \<^verbatim>\<open>add_required_fields(ldm, required_template)\<close>: nothing to do for \<^verbatim>\<open>None\<close> or an empty
  template.
\<close>

definition add_required_fields :: "nat \<Rightarrow> val \<Rightarrow> val \<Rightarrow> heap \<Rightarrow> unit res" where
  "add_required_fields n ldm required_template h =
     (if required_template = VNone then (Inr (), h)
      else
        (case py_len h required_template of
           Inl e \<Rightarrow> (Inl e, h)
         | Inr l \<Rightarrow>
             if l = 0 then (Inr (), h)
             else
               (case (ldm, required_template) of
                  (VRef d, VRef r) \<Rightarrow> add_fields_dict n d r h
                | _ \<Rightarrow> (Inl AttributeError, h))))"

section \<open>ACL and legal tag\<close>

text \<open>
  An optional string argument is \<open>None\<close> or \<open>Some s\<close>; Python's truth test \<^verbatim>\<open>if s:\<close> holds for
  a string that is not empty.
\<close>

definition truthy :: "string option \<Rightarrow> bool" where
  "truthy s = (case s of None \<Rightarrow> False | Some t \<Rightarrow> t \<noteq> [])"

definition set_acl_values :: "val \<Rightarrow> string option \<Rightarrow> string option \<Rightarrow> heap \<Rightarrow> unit res" where
  "set_acl_values manifest acl_viewer acl_owner h =
     (case manifest of
        VRef m \<Rightarrow>
          (case heap_get h m of
             Some (ODict kvs) \<Rightarrow>
               (case alloc (ODict []) h of
                  (acl, h1) \<Rightarrow>
                    (let h2 = heap_set m (ODict (dict_set (dict_del kvs (KStr ''acl'')) (KStr ''acl'') (VRef acl))) h1;
                         h3 = (if truthy acl_viewer
                               then (case alloc (OList [VStr (the acl_viewer)]) h2 of
                                       (l, h') \<Rightarrow>
                                         heap_set acl (ODict [(KStr ''viewers'', VRef l)]) h')
                               else h2)
                     in if truthy acl_owner
                        then (case alloc (OList [VStr (the acl_owner)]) h3 of
                                (l, h') \<Rightarrow>
                                  (case heap_get h' acl of
                                     Some (ODict acl_items) \<Rightarrow>
                                       (Inr (), heap_set acl (ODict (dict_set acl_items (KStr ''owners'') (VRef l))) h')
                                   | _ \<Rightarrow> (Inl TypeError, h')))
                        else (Inr (), h3)))
           | _ \<Rightarrow> (Inr (), h))
      | _ \<Rightarrow> (Inr (), h))"

text \<open>
  \<^verbatim>\<open>set_legal_tag\<close>: \<^verbatim>\<open>legal = manifest.get('legal')\<close>, then the two item assignments on
  \<^verbatim>\<open>legal\<close>, which raise \<^verbatim>\<open>TypeError\<close> unless it is a dict (a list takes integer indexes
  only; \<^verbatim>\<open>None\<close>, a string and a number take no item assignment).
\<close>

definition set_legal_tag :: "val \<Rightarrow> string \<Rightarrow> heap \<Rightarrow> unit res" where
  "set_legal_tag manifest legal_tag h =
     (case manifest of
        VRef m \<Rightarrow>
          (case heap_get h m of
             Some (ODict kvs) \<Rightarrow>
               (let legal = (case dict_get kvs (KStr ''legal'') of None \<Rightarrow> VNone | Some v \<Rightarrow> v) in
                case alloc (OList [VStr legal_tag]) h of
                  (l1, h1) \<Rightarrow>
                    (case setitem legal (KStr ''legaltags'') (VRef l1) h1 of
                       (Inl e, h2) \<Rightarrow> (Inl e, h2)
                     | (Inr u, h2) \<Rightarrow>
                         (case alloc (OList [VStr ''US'']) h2 of
                            (l2, h3) \<Rightarrow>
                              setitem legal (KStr ''otherRelevantDataCountries'') (VRef l2) h3)))
           | _ \<Rightarrow> (Inr (), h))
      | _ \<Rightarrow> (Inr (), h))"

section \<open>Equality of parameter indexes\<close>

text \<open>
  Python's \<^verbatim>\<open>==\<close>, which the assertion of \<^verbatim>\<open>create_manifest_from_row\<close> applies to two
  indexes.  Numbers compare by value across \<^verbatim>\<open>bool\<close>, \<^verbatim>\<open>int\<close> and \<^verbatim>\<open>float\<close>; two
  references to the same object are equal without a look inside; dicts are equal when
  they have as many items and every key of the first is in the second with an equal
  value; lists are equal when they have the same length and equal items.  (A float is
  compared as the value it carries.)
\<close>

definition num_of :: "val \<Rightarrow> pyfloat option" where
  "num_of v =
     (case v of
        VBool b \<Rightarrow> Some (Finite (if b then 1 else 0))
      | VInt i \<Rightarrow> Some (Finite (of_int i))
      | VFloat f \<Rightarrow> Some f
      | _ \<Rightarrow> None)"

definition scalar_eq :: "val \<Rightarrow> val \<Rightarrow> bool" where
  "scalar_eq v w =
     (case (num_of v, num_of w) of
        (Some x, Some y) \<Rightarrow> x = y
      | (None, None) \<Rightarrow> v = w
      | _ \<Rightarrow> False)"

function (sequential) py_eq :: "nat \<Rightarrow> heap \<Rightarrow> val \<Rightarrow> val \<Rightarrow> error + bool"
  and py_eq_list :: "nat \<Rightarrow> heap \<Rightarrow> val list \<Rightarrow> val list \<Rightarrow> error + bool"
  and py_eq_items :: "nat \<Rightarrow> heap \<Rightarrow> (key \<times> val) list \<Rightarrow> (key \<times> val) list \<Rightarrow> error + bool" where
  "py_eq (Suc n) h (VRef a) (VRef b) =
     (if a = b then Inr True
      else
        (case (heap_get h a, heap_get h b) of
           (Some (ODict kvs1), Some (ODict kvs2)) \<Rightarrow>
             if length kvs1 \<noteq> length kvs2 then Inr False else py_eq_items n h kvs1 kvs2
         | (Some (OList xs), Some (OList ys)) \<Rightarrow>
             if length xs \<noteq> length ys then Inr False else py_eq_list n h xs ys
         | _ \<Rightarrow> Inr False))"
| "py_eq 0 h (VRef a) (VRef b) = (if a = b then Inr True else Inl RecursionError)"
| "py_eq n h v w = Inr (scalar_eq v w)"
| "py_eq_list n h [] ys = Inr True"
| "py_eq_list n h (x # xs) [] = Inr True"
| "py_eq_list n h (x # xs) (y # ys) =
     (case py_eq n h x y of
        Inl e \<Rightarrow> Inl e
      | Inr False \<Rightarrow> Inr False
      | Inr True \<Rightarrow> py_eq_list n h xs ys)"
| "py_eq_items n h [] kvs2 = Inr True"
| "py_eq_items n h ((k, v) # kvs1) kvs2 =
     (case dict_get kvs2 k of
        None \<Rightarrow> Inr False
      | Some w \<Rightarrow>
          (case py_eq n h v w of
             Inl e \<Rightarrow> Inl e
           | Inr False \<Rightarrow> Inr False
           | Inr True \<Rightarrow> py_eq_items n h kvs1 kvs2))"
  by pat_completeness auto
termination
  by (relation "measures
       [\<lambda>x. case x of Inl (n, _) \<Rightarrow> n | Inr (Inl (n, _)) \<Rightarrow> n | Inr (Inr (n, _)) \<Rightarrow> n,
        \<lambda>x. case x of Inl _ \<Rightarrow> 0 | Inr (Inl (n, h, xs, _)) \<Rightarrow> Suc (length xs)
                     | Inr (Inr (n, h, kvs, _)) \<Rightarrow> Suc (length kvs)]") auto

text \<open>
  Anchors and records are tuples, compared item by item; their lists and the index
  itself (a dict from placeholders to lists of records) as above.
\<close>

fun anchors_eq :: "nat \<Rightarrow> heap \<Rightarrow> anchor list \<Rightarrow> anchor list \<Rightarrow> error + bool" where
  "anchors_eq n h [] [] = Inr True"
| "anchors_eq n h ((o1, keys1) # l1) ((o2, keys2) # l2) =
     (case py_eq n h (VRef o1) (VRef o2) of
        Inl e \<Rightarrow> Inl e
      | Inr False \<Rightarrow> Inr False
      | Inr True \<Rightarrow> if keys1 = keys2 then anchors_eq n h l1 l2 else Inr False)"
| "anchors_eq n h l1 l2 = Inr False"

definition prec_eq :: "nat \<Rightarrow> heap \<Rightarrow> prec \<Rightarrow> prec \<Rightarrow> error + bool" where
  "prec_eq n h r1 r2 =
     (case (r1, r2) of
        ((root1, keys1, root_list1), (root2, keys2, root_list2)) \<Rightarrow>
          (case py_eq n h (VRef root1) (VRef root2) of
             Inl e \<Rightarrow> Inl e
           | Inr False \<Rightarrow> Inr False
           | Inr True \<Rightarrow> if keys1 = keys2 then anchors_eq n h root_list1 root_list2 else Inr False))"

fun precs_eq :: "nat \<Rightarrow> heap \<Rightarrow> prec list \<Rightarrow> prec list \<Rightarrow> error + bool" where
  "precs_eq n h [] [] = Inr True"
| "precs_eq n h (r1 # l1) (r2 # l2) =
     (case prec_eq n h r1 r2 of
        Inl e \<Rightarrow> Inl e
      | Inr False \<Rightarrow> Inr False
      | Inr True \<Rightarrow> precs_eq n h l1 l2)"
| "precs_eq n h l1 l2 = Inr False"

fun pindex_items_eq :: "nat \<Rightarrow> heap \<Rightarrow> pindex \<Rightarrow> pindex \<Rightarrow> error + bool" where
  "pindex_items_eq n h [] po2 = Inr True"
| "pindex_items_eq n h ((parameter, recs1) # po1) po2 =
     (case dict_get po2 parameter of
        None \<Rightarrow> Inr False
      | Some recs2 \<Rightarrow>
          (case precs_eq n h recs1 recs2 of
             Inl e \<Rightarrow> Inl e
           | Inr False \<Rightarrow> Inr False
           | Inr True \<Rightarrow> pindex_items_eq n h po1 po2))"

definition pindex_eq :: "nat \<Rightarrow> heap \<Rightarrow> pindex \<Rightarrow> pindex \<Rightarrow> error + bool" where
  "pindex_eq n h po1 po2 =
     (if length po1 \<noteq> length po2 then Inr False else pindex_items_eq n h po1 po2)"

section \<open>\<^verbatim>\<open>create_manifest_from_row\<close>\<close>

text \<open>
  The first loop: every record inside an array empties the array of its outermost anchor
  (\<^verbatim>\<open>parent_object[key] = []\<close>, a new list each time).
\<close>

fun empty_top_level_arrays :: "prec list \<Rightarrow> heap \<Rightarrow> unit res" where
  "empty_top_level_arrays [] h = (Inr (), h)"
| "empty_top_level_arrays ((root_object, keys, root_list) # parameter_recs) h =
     (case root_list of
        [] \<Rightarrow> empty_top_level_arrays parameter_recs h
      | (top_object, top_keys) # anchors \<Rightarrow>
          (case get_deepest_key_object (VRef top_object) top_keys h of
             (Inl e, h1) \<Rightarrow> (Inl e, h1)
           | (Inr (parent_object, k), h1) \<Rightarrow>
               (case alloc (OList []) h1 of
                  (l, h2) \<Rightarrow>
                    (case setitem parent_object k (VRef l) h2 of
                       (Inl e, h3) \<Rightarrow> (Inl e, h3)
                     | (Inr u, h3) \<Rightarrow> empty_top_level_arrays parameter_recs h3))))"

fun empty_arrays_of_index :: "pindex \<Rightarrow> heap \<Rightarrow> unit res" where
  "empty_arrays_of_index [] h = (Inr (), h)"
| "empty_arrays_of_index ((parameter, parameter_recs) # rest) h =
     (case empty_top_level_arrays parameter_recs h of
        (Inl e, h1) \<Rightarrow> (Inl e, h1)
      | (Inr u, h1) \<Rightarrow> empty_arrays_of_index rest h1)"

text \<open>
  The second loop.  \<open>replace_in_array\<close> is \<^verbatim>\<open>for indexes_column in parameter_column\<close>, with
  \<^verbatim>\<open>indexes_column[:-1]\<close> and \<^verbatim>\<open>indexes_column[-1]\<close> as the two components of an entry.
  A placeholder inside an array that has no binding, or a scalar one, cannot be iterated
  (\<^verbatim>\<open>TypeError\<close>).
\<close>

fun replace_in_array ::
  "nat \<Rightarrow> env \<Rightarrow> anchor list \<Rightarrow> string \<Rightarrow> string list \<Rightarrow> (nat list \<times> nat) list \<Rightarrow> heap \<Rightarrow> unit res" where
  "replace_in_array n ev new_root_list parameter data_row [] h = (Inr (), h)"
| "replace_in_array n ev new_root_list parameter data_row ((indexes, col) # parameter_column) h =
     (case get_root_object n new_root_list indexes h of
        (Inl e, h1) \<Rightarrow> (Inl e, h1)
      | (Inr (new_root_object, new_keys), h1) \<Rightarrow>
          (case replace_parameter_with_data ev new_root_object new_keys parameter data_row
                  (Some (BScalar col)) h1 of
             (Inl e, h2) \<Rightarrow> (Inl e, h2)
           | (Inr u, h2) \<Rightarrow>
               replace_in_array n ev new_root_list parameter data_row parameter_column h2))"

fun replace_recs ::
  "nat \<Rightarrow> env \<Rightarrow> bindings \<Rightarrow> string list \<Rightarrow> string \<Rightarrow> prec list \<Rightarrow> heap \<Rightarrow> unit res" where
  "replace_recs n ev map_parameter_column data_row parameter [] h = (Inr (), h)"
| "replace_recs n ev map_parameter_column data_row parameter
       ((root_object, keys, root_list) # parameter_recs) h =
     (case (if length root_list = 0 then
              replace_parameter_with_data ev (VRef root_object) keys parameter data_row
                (dict_get map_parameter_column parameter) h
            else
              (case dict_get map_parameter_column parameter of
                 Some (BArray parameter_column) \<Rightarrow>
                   replace_in_array n ev (root_list @ [(root_object, keys)]) parameter data_row
                     parameter_column h
               | _ \<Rightarrow> (Inl TypeError, h))) of
        (Inl e, h1) \<Rightarrow> (Inl e, h1)
      | (Inr u, h1) \<Rightarrow> replace_recs n ev map_parameter_column data_row parameter parameter_recs h1)"

fun replace_parameters ::
  "nat \<Rightarrow> env \<Rightarrow> bindings \<Rightarrow> string list \<Rightarrow> pindex \<Rightarrow> heap \<Rightarrow> unit res" where
  "replace_parameters n ev map_parameter_column data_row [] h = (Inr (), h)"
| "replace_parameters n ev map_parameter_column data_row ((parameter, parameter_recs) # rest) h =
     (case replace_recs n ev map_parameter_column data_row parameter parameter_recs h of
        (Inl e, h1) \<Rightarrow> (Inl e, h1)
      | (Inr u, h1) \<Rightarrow> replace_parameters n ev map_parameter_column data_row rest h1)"

text \<open>
  The steps after the substitution, in the order of the source: clean up, strip the
  tags, add the required fields, set the ACL and the legal tag.
\<close>

definition finish_manifest ::
  "nat \<Rightarrow> val \<Rightarrow> val \<Rightarrow> string option \<Rightarrow> string option \<Rightarrow> string option \<Rightarrow> heap \<Rightarrow> val res" where
  "finish_manifest n ldm required_template acl_viewer acl_owner legal_tag h =
     (case clear_non_filled_parameters n ldm h of
        (Inl e, h1) \<Rightarrow> (Inl e, h1)
      | (Inr u, h1) \<Rightarrow>
          (case remove_special_tags n ldm h1 of
             (Inl e, h2) \<Rightarrow> (Inl e, h2)
           | (Inr u, h2) \<Rightarrow>
               (case add_required_fields n ldm required_template h2 of
                  (Inl e, h3) \<Rightarrow> (Inl e, h3)
                | (Inr u, h3) \<Rightarrow>
                    (case (if truthy acl_viewer \<or> truthy acl_owner
                           then set_acl_values ldm acl_viewer acl_owner h3
                           else (Inr (), h3)) of
                       (Inl e, h4) \<Rightarrow> (Inl e, h4)
                     | (Inr u, h4) \<Rightarrow>
                         (case (if truthy legal_tag
                                then set_legal_tag ldm (the legal_tag) h4
                                else (Inr (), h4)) of
                            (Inl e, h5) \<Rightarrow> (Inl e, h5)
                          | (Inr u, h5) \<Rightarrow> (Inr ldm, h5))))))"

definition create_manifest_from_row ::
  "nat \<Rightarrow> env \<Rightarrow> val \<Rightarrow> val \<Rightarrow> pindex \<Rightarrow> bindings \<Rightarrow> string list \<Rightarrow>
     string option \<Rightarrow> string option \<Rightarrow> string option \<Rightarrow> heap \<Rightarrow> val res" where
  "create_manifest_from_row n ev root_template required_template parameters_object
       map_parameter_column data_row acl_viewer acl_owner legal_tag h =
     (case deepcopy n root_template h of
        (Inl e, h1) \<Rightarrow> (Inl e, h1)
      | (Inr ldm, h1) \<Rightarrow>
          (case parse_template_parameters n ldm [] h1 of
             (Inl e, h2) \<Rightarrow> (Inl e, h2)
           | (Inr new_parameters_object, h2) \<Rightarrow>
               (case pindex_eq n h2 new_parameters_object parameters_object of
                  Inl e \<Rightarrow> (Inl e, h2)
                | Inr False \<Rightarrow> (Inl AssertionError, h2)
                | Inr True \<Rightarrow>
                    (case empty_arrays_of_index new_parameters_object h2 of
                       (Inl e, h3) \<Rightarrow> (Inl e, h3)
                     | (Inr u, h3) \<Rightarrow>
                         (case replace_parameters n ev map_parameter_column data_row
                                 new_parameters_object h3 of
                            (Inl e, h4) \<Rightarrow> (Inl e, h4)
                          | (Inr u, h4) \<Rightarrow>
                              finish_manifest n ldm required_template acl_viewer acl_owner
                                legal_tag h4)))))"

section \<open>Properties of the column binder\<close>

lemma dict_get_set [simp]: "dict_get (dict_set m k v) k = Some v"
  by (induction m) auto

lemma index_of_mem: "x \<in> set xs \<Longrightarrow> index_of xs x \<noteq> None"
  by (induction xs) (auto split: option.splits)

lemma bind_recs_bound:
  "dict_get m p \<noteq> None \<Longrightarrow> bind_recs cols p k recs m = Inr m' \<Longrightarrow>
     m' = m \<and> (\<forall>r \<in> set recs. d_array_of r = 0)"
  by (induction recs arbitrary: m) (auto simp: Let_def split: if_splits option.splits)

lemma bind_recs_tail:
  "bind_recs cols p k (r # recs) m = Inr m' \<Longrightarrow> \<exists>m1. bind_recs cols p k recs m1 = Inr m'"
  by (auto simp: Let_def split: if_splits option.splits sum.splits)

lemma bind_recs_head_binds:
  "bind_recs cols p k (r # recs) m = Inr m' \<Longrightarrow> 0 < d_array_of r \<or> k \<in> set cols \<Longrightarrow>
   \<exists>m1. dict_get m1 p \<noteq> None \<and> bind_recs cols p k recs m1 = Inr m'"
  using index_of_mem[of k cols]
  apply (auto simp: Let_def get_column_index_def split: if_splits option.splits sum.splits)
   apply (metis dict_get_set)+
  done

lemma bind_recs_array_twice:
  "bind_recs cols p k recs m = Inr m' \<Longrightarrow> i < j \<Longrightarrow> j < length recs \<Longrightarrow>
   0 < d_array_of (recs ! j) \<Longrightarrow>
   0 < d_array_of (recs ! i) \<or> k \<in> set cols \<Longrightarrow> False"
proof (induction recs arbitrary: m i j)
  case Nil then show ?case by simp
next
  case (Cons r recs)
  from Cons.prems obtain j' where j: "j = Suc j'" "j' < length recs" by (cases j) auto
  show ?case
  proof (cases i)
    case 0
    with Cons.prems have "0 < d_array_of r \<or> k \<in> set cols" by simp
    from bind_recs_head_binds[OF Cons.prems(1) this] obtain m1 where
      m1: "dict_get m1 p \<noteq> None" "bind_recs cols p k recs m1 = Inr m'" by blast
    from bind_recs_bound[OF m1] j have "d_array_of (recs ! j') = 0" by simp
    with Cons.prems(4) j show ?thesis by simp
  next
    case (Suc i')
    from bind_recs_tail[OF Cons.prems(1)] obtain m1 where
      "bind_recs cols p k recs m1 = Inr m'" by blast
    from Cons.IH[OF this, of i' j'] Cons.prems j Suc show ?thesis by simp
  qed
qed

lemma bind_params_mem:
  "bind_params cols po m = Inr m' \<Longrightarrow> (p, recs) \<in> set po \<Longrightarrow>
   \<exists>m1 m2. bind_recs cols p (parameter_key_of p) recs m1 = Inr m2"
  by (induction po arbitrary: m) (auto split: sum.splits, blast)

lemma binder_fault:
  assumes "(parameter, parameter_recs) \<in> set parameters_object"
    and "i < j" and "j < length parameter_recs"
    and "0 < d_array_of (parameter_recs ! j)"
    and "0 < d_array_of (parameter_recs ! i) \<or>
         parameter_key_of parameter \<in> set (read_column_names csv_rows)"
  shows "\<exists>e. map_csv_column_names_to_parameters csv_rows parameters_object = Inl e"
proof (cases "map_csv_column_names_to_parameters csv_rows parameters_object")
  case (Inl e) then show ?thesis by blast
next
  case (Inr m')
  then have "bind_params (read_column_names csv_rows) parameters_object [] = Inr m'"
    by (simp add: map_csv_column_names_to_parameters_def)
  from bind_params_mem[OF this assms(1)] obtain m1 m2 where
    "bind_recs (read_column_names csv_rows) parameter (parameter_key_of parameter) parameter_recs m1 = Inr m2"
    by blast
  from bind_recs_array_twice[OF this assms(2,3,4,5)] show ?thesis by simp
qed

section \<open>Array expansion on an example\<close>

text \<open>
  Claim C7.  The template \<^verbatim>\<open>{"items":[{"v":"{{x}}"}]}\<close> is indexed, the header
  \<^verbatim>\<open>x_1,x_2,x_3\<close> is bound, and the row \<^verbatim>\<open>a,b,c\<close> is materialized (no required template, no
  ACL, no legal tag).  The manifest that \<^verbatim>\<open>create_manifest_from_row\<close> returns is
  \<^verbatim>\<open>{"items":[{"v":"a"},{"v":"b"},{"v":"c"}]}\<close>: the array has exactly three elements, in
  index order.  This holds for every recursion bound of at least three and for every
  choice of the library conversions.
\<close>

theorem array_expansion_1d:
  "(case json_load (JObj [(''items'', JArr [JObj [(''v'', JStr ''{{x}}'')]])]) [] of
      (root_template, h0) \<Rightarrow>
        (case parse_template_parameters (Suc (Suc (Suc n))) root_template [] h0 of
           (Inr parameters_object, h1) \<Rightarrow>
             (case map_csv_column_names_to_parameters
                     [[''x_1'', ''x_2'', ''x_3''], [''a'', ''b'', ''c'']] parameters_object of
                Inr map_parameter_column \<Rightarrow>
                  (case create_manifest_from_row (Suc (Suc (Suc n))) ev root_template VNone
                          parameters_object map_parameter_column [''a'', ''b'', ''c'']
                          None None None h1 of
                     (Inr ldm, h2) \<Rightarrow>
                       json_dump (Suc (Suc (Suc n))) h2 ldm =
                         Inr (JObj [(''items'',
                                JArr [JObj [(''v'', JStr ''a'')], JObj [(''v'', JStr ''b'')],
                                      JObj [(''v'', JStr ''c'')]])])
                   | (Inl e, h2) \<Rightarrow> False)
              | Inl e \<Rightarrow> False)
         | (Inl e, h1) \<Rightarrow> False))"
  by code_simp

section \<open>An environment for the examples\<close>

text \<open>
  The closed examples below need some value for the library conversions.  None of them
  reaches a conversion, so they are run in the environment in which each conversion
  rejects its input.
\<close>

definition no_conversions :: env where
  "no_conversions = \<lparr>float_of_str = (\<lambda>s. None), datetime_ymd = (\<lambda>s. None),
     datetime_mdy = (\<lambda>s. None), json_text_replace = (\<lambda>j a b. None)\<rparr>"

section \<open>Typed placeholders: \<^verbatim>\<open>bool\<close>\<close>

lemma startswith_Cons:
  "startswith (c # s) (d # p) = (c = d \<and> startswith s p)"
  by (simp add: startswith_def)

lemma startswith_Nil [simp]: "startswith s []"
  by (simp add: startswith_def)

lemma py_replace_bool_prefix:
  assumes "startswith parameter ''{{''"
  shows "startswith (py_replace (''bool('' @ rest) parameter data) ''bool''"
proof -
  from assms obtain p where p: "parameter = CHR ''{'' # p"
    by (cases parameter) (auto simp: startswith_def split: if_splits)
  show ?thesis
    by (simp add: py_replace_def p startswith_Cons)
qed

lemma py_strip_id:
  assumes "\<not> isspace c" "\<not> isspace d"
  shows "py_strip (c # s @ [d]) = c # s @ [d]"
  using assms by (simp add: py_strip_def)

lemma fullmatch_bool: "fullmatch_typed parameter (''bool('' @ parameter @ '')'')"
  by (simp add: fullmatch_typed_def typed_functions_def)

lemma strip_bool_leaf: "py_strip (''bool('' @ parameter @ '')'') = ''bool('' @ parameter @ '')''"
  using py_strip_id[of "CHR ''b''" "CHR '')''" "''ool('' @ parameter"]
  by (simp add: isspace_def)

lemma setitem_after_subscript_fst:
  assumes "subscript h parent_object k = Inr (VStr leaf)" "1 < length leaf"
  shows "fst (setitem parent_object k x h) = Inr () \<and>
         subscript (snd (setitem parent_object k x h)) parent_object k = Inr x"
  using assms
  by (auto simp: subscript_def setitem_def heap_get_def heap_set_def
           split: val.splits option.splits obj.splits key.splits if_splits)

lemma setitem_after_subscript:
  assumes "subscript h parent_object k = Inr (VStr leaf)" "1 < length leaf"
  shows "\<exists>h2. setitem parent_object k x h = (Inr (), h2) \<and> subscript h2 parent_object k = Inr x"
  using setitem_after_subscript_fst[OF assms, of x]
  by (cases "setitem parent_object k x h") auto

text \<open>
  Claim C5, as amended.  Let the leaf that \<^verbatim>\<open>(root_object, keys)\<close> leads to be the string
  \<^verbatim>\<open>bool({{x}})\<close> for a placeholder \<^verbatim>\<open>{{x}}\<close>, and let the bound column exist in the row.
  When the stripped cell is not empty, \<^verbatim>\<open>replace_parameter_with_data\<close> succeeds and the
  leaf becomes the boolean that is true exactly when the lower-cased stripped cell is
  one of \<^verbatim>\<open>true, yes, y, t, 1\<close> (so \<^verbatim>\<open>no\<close> gives false).  When the stripped cell is empty,
  the call returns at once and the store is unchanged: the leaf stays the string
  \<^verbatim>\<open>bool({{x}})\<close>, for \<^verbatim>\<open>clear_non_filled_parameters\<close> to remove.
\<close>

theorem typed_bool_substitution:
  assumes "get_deepest_key_object root_object keys h = (Inr (parent_object, k), h1)"
    and "subscript h1 parent_object k = Inr (VStr (''bool('' @ parameter @ '')''))"
    and "startswith parameter ''{{''"
    and "col < length data_row"
  shows "if py_strip (data_row ! col) = []
         then replace_parameter_with_data ev root_object keys parameter data_row (Some (BScalar col)) h
                = (Inr (), h)
         else (\<exists>h2. replace_parameter_with_data ev root_object keys parameter data_row
                        (Some (BScalar col)) h = (Inr (), h2) \<and>
                    subscript h2 parent_object k =
                      Inr (VBool (py_lower (py_strip (data_row ! col)) \<in> set bool_words)))"
proof (cases "py_strip (data_row ! col) = []")
  case True
  then show ?thesis using assms(4) by (simp add: replace_parameter_with_data_def cell_data_def)
next
  case False
  let ?data = "py_strip (data_row ! col)"
  let ?leaf = "''bool('' @ parameter @ '')''"
  have tv: "typed_value ev (py_replace ?leaf parameter ?data) ?data
              = Inr (Some (VBool (py_lower ?data \<in> set bool_words)))"
    using py_replace_bool_prefix[OF assms(3), of "parameter @ '')''" ?data]
    by (simp add: typed_value_def)
  have r: "replace_parameter_with_data ev root_object keys parameter data_row (Some (BScalar col)) h
             = setitem parent_object k (VBool (py_lower ?data \<in> set bool_words)) h1"
    using False assms(1,2,4) tv fullmatch_bool[of parameter] strip_bool_leaf[of parameter]
    by (simp add: replace_parameter_with_data_def cell_data_def Let_def)
  from setitem_after_subscript[OF assms(2), of "VBool (py_lower ?data \<in> set bool_words)"]
  show ?thesis using False r by simp
qed

text \<open>
  The theorem at the leaf \<^verbatim>\<open>{"flag": "bool({{x}})"}\<close> and the cell \<^verbatim>\<open>" Yes "\<close>: the leaf
  becomes \<^verbatim>\<open>True\<close>.
\<close>

theorem typed_bool_substitution_witness:
  "get_deepest_key_object (VRef 0) [KStr ''flag''] [ODict [(KStr ''flag'', VStr ''bool({{x}})'')]]
     = (Inr (VRef 0, KStr ''flag''), [ODict [(KStr ''flag'', VStr ''bool({{x}})'')]])
   \<and> subscript [ODict [(KStr ''flag'', VStr ''bool({{x}})'')]] (VRef 0) (KStr ''flag'')
       = Inr (VStr ''bool({{x}})'')
   \<and> startswith ''{{x}}'' ''{{'' \<and> (0::nat) < length ['' Yes '']
   \<and> (\<exists>h2. replace_parameter_with_data no_conversions (VRef 0) [KStr ''flag''] ''{{x}}'' ['' Yes '']
             (Some (BScalar 0)) [ODict [(KStr ''flag'', VStr ''bool({{x}})'')]] = (Inr (), h2)
           \<and> subscript h2 (VRef 0) (KStr ''flag'') = Inr (VBool True))"
proof -
  have a: "get_deepest_key_object (VRef 0) [KStr ''flag''] [ODict [(KStr ''flag'', VStr ''bool({{x}})'')]]
     = (Inr (VRef 0, KStr ''flag''), [ODict [(KStr ''flag'', VStr ''bool({{x}})'')]])" by code_simp
  have b: "subscript [ODict [(KStr ''flag'', VStr ''bool({{x}})'')]] (VRef 0) (KStr ''flag'')
             = Inr (VStr (''bool('' @ ''{{x}}'' @ '')''))"
    by code_simp
  have c: "startswith ''{{x}}'' ''{{''" by code_simp
  have d: "(0::nat) < length ['' Yes '']" by simp
  have e: "py_strip ('' Yes '' :: string) = ''Yes''" by code_simp
  have f: "(py_lower ''Yes'' \<in> set bool_words) = True" by code_simp
  from typed_bool_substitution[OF a b c d, of no_conversions] show ?thesis
    using a b c by (simp add: e f)
qed

text \<open>
  Claim C5 as it is stated fails on a blank cell: with the cell \<^verbatim>\<open>" "\<close> the call changes
  nothing, and the leaf is still the string \<^verbatim>\<open>bool({{x}})\<close>, not the boolean false.
\<close>

theorem typed_bool_blank_counterexample:
  "replace_parameter_with_data no_conversions (VRef 0) [KStr ''flag''] ''{{x}}'' ['' '']
      (Some (BScalar 0)) [ODict [(KStr ''flag'', VStr ''bool({{x}})'')]]
     = (Inr (), [ODict [(KStr ''flag'', VStr ''bool({{x}})'')]])
   \<and> subscript [ODict [(KStr ''flag'', VStr ''bool({{x}})'')]] (VRef 0) (KStr ''flag'')
       \<noteq> Inr (VBool False)"
  by code_simp

section \<open>The legal tag\<close>

text \<open>
  No pass turns a dict into a list or a list into a dict: the objects of the store keep
  their kind.  This is what makes the manifest still a dict when the legal tag is set.
\<close>

definition same_kind :: "obj \<Rightarrow> obj \<Rightarrow> bool" where
  "same_kind x y = (case (x, y) of (ODict a, ODict b) \<Rightarrow> True | (OList a, OList b) \<Rightarrow> True | _ \<Rightarrow> False)"

definition kinds_kept :: "heap \<Rightarrow> heap \<Rightarrow> bool" where
  "kinds_kept h h' = (length h \<le> length h' \<and> (\<forall>a<length h. same_kind (h ! a) (h' ! a)))"

lemma same_kind_refl [simp]: "same_kind x x"
  by (cases x) (auto simp: same_kind_def)

lemma same_kind_trans: "same_kind x y \<Longrightarrow> same_kind y z \<Longrightarrow> same_kind x z"
  by (cases x; cases y; cases z) (auto simp: same_kind_def)

lemma same_kind_simps [simp]:
  "same_kind (ODict a) (ODict b)" "same_kind (OList c) (OList d)"
  "\<not> same_kind (ODict a) (OList d)" "\<not> same_kind (OList c) (ODict b)"
  by (auto simp: same_kind_def)

lemma kinds_kept_refl [simp]: "kinds_kept h h"
  by (simp add: kinds_kept_def)

lemma kinds_kept_trans: "kinds_kept h1 h2 \<Longrightarrow> kinds_kept h2 h3 \<Longrightarrow> kinds_kept h1 h3"
  unfolding kinds_kept_def by (meson le_trans less_le_trans same_kind_trans)

lemma kinds_kept_alloc: "alloc ob h = (a, h') \<Longrightarrow> kinds_kept h h'"
  by (auto simp: alloc_def kinds_kept_def nth_append)

lemma kinds_kept_append [simp]: "kinds_kept h (h @ [ob])"
  by (auto simp: kinds_kept_def nth_append)

lemma kinds_kept_heap_set:
  "heap_get h a = Some ob \<Longrightarrow> same_kind ob ob' \<Longrightarrow> kinds_kept h (heap_set a ob' h)"
  by (auto simp: kinds_kept_def heap_get_def heap_set_def nth_list_update split: if_splits)

lemma kinds_kept_dict:
  "kinds_kept h h' \<Longrightarrow> heap_get h d = Some (ODict kvs) \<Longrightarrow> \<exists>kvs'. heap_get h' d = Some (ODict kvs')"
  apply (auto simp: kinds_kept_def heap_get_def split: if_splits)
  apply (erule_tac x=d in allE)
  apply (cases "h' ! d")
   apply auto
  done

lemma default_for_kinds: "default_for v h = (x, h') \<Longrightarrow> kinds_kept h h'"
  by (auto simp: default_for_def alloc_def split: pytype.splits)

lemma default_for_get:
  "default_for v h = (x, h') \<Longrightarrow> heap_get h a = Some ob \<Longrightarrow> heap_get h' a = Some ob"
  by (auto simp: default_for_def alloc_def heap_get_def nth_append split: pytype.splits if_splits)

lemma add_missing_field_kinds:
  "add_missing_field des_dict k v_src optional_field h = (r, h') \<Longrightarrow> kinds_kept h h'"
proof -
  assume a: "add_missing_field des_dict k v_src optional_field h = (r, h')"
  show ?thesis
  proof (cases "heap_get h des_dict")
    case None
    with a show ?thesis by (simp add: add_missing_field_def)
  next
    case (Some ob)
    show ?thesis
    proof (cases ob)
      case (OList xs)
      with a Some show ?thesis by (simp add: add_missing_field_def)
    next
      case (ODict des_items)
      show ?thesis
      proof (cases "dict_get des_items k = None \<and> \<not> optional_field")
        case False
        with a Some ODict show ?thesis by (auto simp: add_missing_field_def)
      next
        case True
        obtain x h1 where d: "default_for v_src h = (x, h1)" by (cases "default_for v_src h")
        from default_for_get[OF d] Some ODict have g: "heap_get h1 des_dict = Some (ODict des_items)" by simp
        from a Some ODict True d have "h' = heap_set des_dict (ODict (dict_set des_items k x)) h1"
          by (auto simp: add_missing_field_def)
        with kinds_kept_heap_set[OF g, of "ODict (dict_set des_items k x)"] default_for_kinds[OF d]
        show ?thesis by (auto intro: kinds_kept_trans)
      qed
    qed
  qed
qed

lemma kinds_kept_case_res:
  assumes "kinds_kept h (snd p)" "\<And>u h1. p = (Inr u, h1) \<Longrightarrow> kinds_kept h1 (snd (f u h1))"
  shows "kinds_kept h (snd (case p of (Inl e, h1) \<Rightarrow> (Inl e, h1) | (Inr u, h1) \<Rightarrow> f u h1))"
  using assms by (cases p; cases "fst p") (auto intro: kinds_kept_trans)

lemma add_fields_kinds:
  "kinds_kept h (snd (add_fields_dict n des_dict src_dict h))"
  "kinds_kept h (snd (add_fields_items n des_dict src_items h))"
  "kinds_kept h (snd (add_fields_list n des_list src_list h))"
  "kinds_kept h (snd (add_fields_outer n src_vals des_vals h))"
  "kinds_kept h (snd (add_fields_inner n item_src des_vals h))"
proof (induction n des_dict src_dict h and n des_dict src_items h and n des_list src_list h
         and n src_vals des_vals h and n item_src des_vals h
       rule: add_fields_dict_add_fields_items_add_fields_list_add_fields_outer_add_fields_inner.induct)
  case (1 des_dict src_dict h)
  then show ?case by simp
next
  case (2 n des_dict src_dict h)
  then show ?case by (auto split: option.splits obj.splits)
next
  case (3 n des_dict h)
  then show ?case by simp
next
  case (4 n des_dict i v_src src_items h)
  then show ?case by simp
next
  case (5 n des_dict s v_src src_items h)
  show ?case
    apply (simp only: add_fields_items.simps Let_def)
    apply (rule kinds_kept_case_res)
     apply (metis add_missing_field_kinds prod.collapse)
    apply (simp split: descent.split split del: if_split)
    apply (intro conjI allI impI)
      apply (rule kinds_kept_case_res)
       apply (rule 5(1)[OF refl refl sym refl]; assumption)
      apply (rule 5(2)[OF refl refl sym refl _ sym refl]; assumption)
     apply (rule kinds_kept_case_res)
      apply (rule 5(3)[OF refl refl sym refl]; assumption)
     apply (rule 5(4)[OF refl refl sym refl _ sym refl]; assumption)
    apply (rule 5(5)[OF refl refl sym refl]; assumption)
    done
next
  case (6 des_list src_list h)
  then show ?case by simp
next
  case (7 n des_list src_list h)
  then show ?case by (auto split: option.splits obj.splits)
next
  case (8 n des_items h)
  then show ?case by simp
next
  case (9 n item_src src_items des_items h)
  show ?case
    apply (simp only: add_fields_outer.simps)
    apply (rule kinds_kept_case_res)
     apply (rule 9(1))
    apply (rule 9(2)[OF sym refl]; assumption)
    done
next
  case (10 n item_src h)
  then show ?case by simp
next
  case (11 n item_src item_des des_items h)
  show ?case
    apply (simp only: add_fields_inner.simps)
    apply (simp split: descent.split split del: if_split)
    apply (intro conjI allI impI)
      apply (rule kinds_kept_case_res)
       apply (rule 11(1); assumption)
      apply (rule 11(2)[OF _ sym refl]; assumption)
     apply (rule kinds_kept_case_res)
      apply (rule 11(3); assumption)
     apply (rule 11(4)[OF _ sym refl]; assumption)
    apply (rule 11(5); assumption)
    done
qed


lemma add_required_fields_kinds:
  "add_required_fields n ldm required_template h = (r, h') \<Longrightarrow> kinds_kept h h'"
  using add_fields_kinds(1)[of h n]
  by (auto simp: add_required_fields_def split: if_splits sum.splits val.splits) (metis snd_conv)+

lemma heap_get_set_same:
  "a < length h \<Longrightarrow> heap_get (heap_set a ob h) a = Some ob"
  by (simp add: heap_get_def heap_set_def)

lemma remove_special_tags_dict:
  assumes "remove_special_tags n ldm h = (Inr u, h')"
  shows "\<exists>d kvs. ldm = VRef d \<and> heap_get h' d = Some (ODict kvs)"
proof -
  from assms obtain d where d: "ldm = VRef d" "remove_dict_tags n d h = (Inr u, h')"
    by (auto simp: remove_special_tags_def split: val.splits)
  from d(2) obtain m where n: "n = Suc m" by (cases n) auto
  from d(2) show ?thesis unfolding n d(1)
    by (auto simp: heap_get_def heap_set_def split: option.splits obj.splits prod.splits sum.splits if_splits)
qed

lemma set_acl_values_kinds:
  "set_acl_values manifest acl_viewer acl_owner h = (r, h') \<Longrightarrow> kinds_kept h h'"
  by (auto simp: set_acl_values_def kinds_kept_def alloc_def heap_get_def heap_set_def Let_def
                 nth_append nth_list_update
           split: val.splits option.splits obj.splits if_splits)

lemma dict_get_set_other: "k \<noteq> k' \<Longrightarrow> dict_get (dict_set m k v) k' = dict_get m k'"
  by (induction m) auto

lemma setitem_KStr_success:
  assumes "setitem v (KStr s) x h = (Inr u, h')"
  shows "\<exists>l items. v = VRef l \<and> heap_get h l = Some (ODict items) \<and>
           h' = heap_set l (ODict (dict_set items (KStr s) x)) h"
  using assms
  by (auto simp: setitem_def split: val.splits option.splits obj.splits)

lemma set_legal_tag_result:
  assumes "set_legal_tag (VRef d) legal_tag h = (Inr u, h')" "heap_get h d = Some (ODict kvs)"
  shows "\<exists>legal t c. subscript h' (VRef d) (KStr ''legal'') = Inr legal \<and>
           subscript h' legal (KStr ''legaltags'') = Inr t \<and>
           json_dump (Suc 0) h' t = Inr (JArr [JStr legal_tag]) \<and>
           subscript h' legal (KStr ''otherRelevantDataCountries'') = Inr c \<and>
           json_dump (Suc 0) h' c = Inr (JArr [JStr ''US''])"
proof -
  define legal where "legal = (case dict_get kvs (KStr ''legal'') of None \<Rightarrow> VNone | Some v \<Rightarrow> v)"
  define h1 where "h1 = h @ [OList [VStr legal_tag]]"
  define l1 where "l1 = length h"
  from assms obtain h2 where
    s1: "setitem legal (KStr ''legaltags'') (VRef l1) h1 = (Inr (), h2)" and
    s2: "setitem legal (KStr ''otherRelevantDataCountries'') (VRef (length h2))
           (h2 @ [OList [VStr ''US'']]) = (Inr u, h')"
    by (auto simp: set_legal_tag_def Let_def alloc_def legal_def h1_def l1_def
             split: prod.splits sum.splits)
  from setitem_KStr_success[OF s1] obtain l items where
    l: "legal = VRef l" "heap_get h1 l = Some (ODict items)"
       "h2 = heap_set l (ODict (dict_set items (KStr ''legaltags'') (VRef l1))) h1"
    by blast
  define items2 where "items2 = dict_set items (KStr ''legaltags'') (VRef l1)"
  define l2 where "l2 = length h2"
  define h3 where "h3 = h2 @ [OList [VStr ''US'']]"
  have len2: "length h2 = Suc (length h)" using l(3) by (simp add: heap_set_def h1_def)
  have ll: "l < length h"
    using l(2) by (auto simp: heap_get_def h1_def nth_append split: if_splits)
  have g3: "heap_get h3 l = Some (ODict items2)"
    using ll by (simp add: heap_get_def h3_def l(3) heap_set_def h1_def nth_append items2_def)
  from setitem_KStr_success[OF s2[unfolded l(1)]] g3
  have h': "h' = heap_set l (ODict (dict_set items2 (KStr ''otherRelevantDataCountries'') (VRef l2))) h3"
    by (auto simp: h3_def l2_def)
  define items3 where "items3 = dict_set items2 (KStr ''otherRelevantDataCountries'') (VRef l2)"
  have len': "length h' = Suc (Suc (length h))"
    by (simp add: h' heap_set_def h3_def len2)
  have gl: "heap_get h' l = Some (ODict items3)"
    using ll by (simp add: h' heap_get_def heap_set_def h3_def len2 items3_def)
  have gl1: "heap_get h' l1 = Some (OList [VStr legal_tag])"
    using ll by (simp add: h' heap_get_def heap_set_def h3_def len2 l1_def l(3) h1_def nth_append)
  have gl2: "heap_get h' l2 = Some (OList [VStr ''US''])"
    using ll by (simp add: h' heap_get_def heap_set_def h3_def len2 l2_def nth_append)
  have hl: "heap_get h l = Some (ODict items)"
    using l(2) ll by (simp add: heap_get_def h1_def nth_append)
  have lg: "dict_get kvs (KStr ''legal'') = Some (VRef l)"
    using l(1) by (auto simp: legal_def split: option.splits)
  have dl: "d < length h" using assms(2) by (auto simp: heap_get_def split: if_splits)
  have gd: "\<exists>kvs'. heap_get h' d = Some (ODict kvs') \<and> dict_get kvs' (KStr ''legal'') = Some (VRef l)"
  proof (cases "d = l")
    case True
    with hl assms(2) have "kvs = items" by simp
    with lg True gl show ?thesis
      by (simp add: items3_def items2_def dict_get_set_other)
  next
    case False
    with dl assms(2) lg show ?thesis
      by (simp add: h' heap_get_def heap_set_def h3_def len2 l(3) h1_def nth_append)
  qed
  have a: "subscript h' (VRef d) (KStr ''legal'') = Inr (VRef l)"
    using gd by (auto simp: subscript_def)
  have b: "subscript h' (VRef l) (KStr ''legaltags'') = Inr (VRef l1)"
    using gl by (simp add: subscript_def items3_def items2_def dict_get_set_other)
  have c: "subscript h' (VRef l) (KStr ''otherRelevantDataCountries'') = Inr (VRef l2)"
    using gl by (simp add: subscript_def items3_def)
  have d1: "json_dump (Suc 0) h' (VRef l1) = Inr (JArr [JStr legal_tag])"
    using gl1 by simp
  have d2: "json_dump (Suc 0) h' (VRef l2) = Inr (JArr [JStr ''US''])"
    using gl2 by simp
  from a b c d1 d2 show ?thesis by blast
qed


lemma res_bindE:
  assumes "(case p of (Inl e, h1) \<Rightarrow> (Inl e, h1) | (Inr u, h1) \<Rightarrow> f u h1) = (Inr r, h')"
  obtains u h1 where "p = (Inr u, h1)" "f u h1 = (Inr r, h')"
  using assms by (cases p; cases "fst p") auto

lemma finish_manifest_legal:
  assumes "finish_manifest n ldm required_template acl_viewer acl_owner (Some legal_tag) h = (Inr manifest, h')"
    and "legal_tag \<noteq> []"
  shows "\<exists>legal t c. subscript h' manifest (KStr ''legal'') = Inr legal \<and>
           subscript h' legal (KStr ''legaltags'') = Inr t \<and>
           json_dump (Suc 0) h' t = Inr (JArr [JStr legal_tag]) \<and>
           subscript h' legal (KStr ''otherRelevantDataCountries'') = Inr c \<and>
           json_dump (Suc 0) h' c = Inr (JArr [JStr ''US''])"
proof -
  have t: "truthy (Some legal_tag)" using assms(2) by (simp add: truthy_def)
  from assms(1)[unfolded finish_manifest_def] obtain u1 h1 where
    r1: "(case remove_special_tags n ldm h1 of
            (Inl e, h2) \<Rightarrow> (Inl e, h2)
          | (Inr u, h2) \<Rightarrow>
              (case add_required_fields n ldm required_template h2 of
                 (Inl e, h3) \<Rightarrow> (Inl e, h3)
               | (Inr u, h3) \<Rightarrow>
                   (case (if truthy acl_viewer \<or> truthy acl_owner
                          then set_acl_values ldm acl_viewer acl_owner h3
                          else (Inr (), h3)) of
                      (Inl e, h4) \<Rightarrow> (Inl e, h4)
                    | (Inr u, h4) \<Rightarrow>
                        (case (if truthy (Some legal_tag)
                               then set_legal_tag ldm (the (Some legal_tag)) h4
                               else (Inr (), h4)) of
                           (Inl e, h5) \<Rightarrow> (Inl e, h5)
                         | (Inr u, h5) \<Rightarrow> (Inr ldm, h5))))) = (Inr manifest, h')"
    by (rule res_bindE)
  from r1 obtain u2 h2 where
    a: "remove_special_tags n ldm h1 = (Inr u2, h2)" and
    r2: "(case add_required_fields n ldm required_template h2 of
                 (Inl e, h3) \<Rightarrow> (Inl e, h3)
               | (Inr u, h3) \<Rightarrow>
                   (case (if truthy acl_viewer \<or> truthy acl_owner
                          then set_acl_values ldm acl_viewer acl_owner h3
                          else (Inr (), h3)) of
                      (Inl e, h4) \<Rightarrow> (Inl e, h4)
                    | (Inr u, h4) \<Rightarrow>
                        (case (if truthy (Some legal_tag)
                               then set_legal_tag ldm (the (Some legal_tag)) h4
                               else (Inr (), h4)) of
                           (Inl e, h5) \<Rightarrow> (Inl e, h5)
                         | (Inr u, h5) \<Rightarrow> (Inr ldm, h5)))) = (Inr manifest, h')"
    by (rule res_bindE)
  from r2 obtain u3 h3 where
    b: "add_required_fields n ldm required_template h2 = (Inr u3, h3)" and
    r3: "(case (if truthy acl_viewer \<or> truthy acl_owner
                          then set_acl_values ldm acl_viewer acl_owner h3
                          else (Inr (), h3)) of
                      (Inl e, h4) \<Rightarrow> (Inl e, h4)
                    | (Inr u, h4) \<Rightarrow>
                        (case (if truthy (Some legal_tag)
                               then set_legal_tag ldm (the (Some legal_tag)) h4
                               else (Inr (), h4)) of
                           (Inl e, h5) \<Rightarrow> (Inl e, h5)
                         | (Inr u, h5) \<Rightarrow> (Inr ldm, h5))) = (Inr manifest, h')"
    by (rule res_bindE)
  from r3 obtain u4 h4 where
    c: "(if truthy acl_viewer \<or> truthy acl_owner
                          then set_acl_values ldm acl_viewer acl_owner h3
                          else (Inr (), h3)) = (Inr u4, h4)" and
    r4: "(case (if truthy (Some legal_tag)
                               then set_legal_tag ldm (the (Some legal_tag)) h4
                               else (Inr (), h4)) of
                           (Inl e, h5) \<Rightarrow> (Inl e, h5)
                         | (Inr u, h5) \<Rightarrow> (Inr ldm, h5)) = (Inr manifest, h')"
    by (rule res_bindE)
  from r4 obtain u5 where
    d: "set_legal_tag ldm legal_tag h4 = (Inr u5, h')" and m: "manifest = ldm"
    using t by (auto elim!: res_bindE)
  from remove_special_tags_dict[OF a] obtain dd kvs where
    dd: "ldm = VRef dd" "heap_get h2 dd = Some (ODict kvs)" by blast
  have "kinds_kept h3 h4" using c set_acl_values_kinds by (auto split: if_splits)
  with add_required_fields_kinds[OF b] have "kinds_kept h2 h4" by (rule kinds_kept_trans)
  from kinds_kept_dict[OF this dd(2)] obtain kvs4 where "heap_get h4 dd = Some (ODict kvs4)" by blast
  from set_legal_tag_result[OF d[unfolded dd(1)] this] show ?thesis
    unfolding m dd(1) .
qed

text \<open>
  Whenever \<^verbatim>\<open>create_manifest_from_row\<close> is given a legal tag (a string that is
  not empty, which is what \<^verbatim>\<open>if legal_tag:\<close> tests) and returns a manifest, the manifest
  has a \<^verbatim>\<open>legal\<close> section whose \<^verbatim>\<open>legaltags\<close> is the one-element list of the tag and
  whose \<^verbatim>\<open>otherRelevantDataCountries\<close> is \<^verbatim>\<open>["US"]\<close>, whatever the template, the row and
  the earlier passes put there.
\<close>

theorem legal_tag_set:
  assumes "create_manifest_from_row n ev root_template required_template parameters_object
             map_parameter_column data_row acl_viewer acl_owner (Some legal_tag) h = (Inr manifest, h')"
    and "legal_tag \<noteq> []"
  shows "\<exists>legal t c. subscript h' manifest (KStr ''legal'') = Inr legal \<and>
           subscript h' legal (KStr ''legaltags'') = Inr t \<and>
           json_dump (Suc 0) h' t = Inr (JArr [JStr legal_tag]) \<and>
           subscript h' legal (KStr ''otherRelevantDataCountries'') = Inr c \<and>
           json_dump (Suc 0) h' c = Inr (JArr [JStr ''US''])"
proof -
  from assms(1) obtain ldm h4 where
    "finish_manifest n ldm required_template acl_viewer acl_owner (Some legal_tag) h4 = (Inr manifest, h')"
    unfolding create_manifest_from_row_def
    by (auto split: prod.splits sum.splits bool.splits)
  from finish_manifest_legal[OF this assms(2)] show ?thesis .
qed

text \<open>
  The theorem at the template \<^verbatim>\<open>{"legal": {"legaltags": ["old"], "status": "x"}}\<close> and
  the tag \<^verbatim>\<open>T1\<close>: the row is materialized, and the old list is replaced.
\<close>

theorem legal_tag_set_witness:
  "\<exists>manifest h'.
     create_manifest_from_row 3 no_conversions (VRef 2) VNone [] [] [''x''] None None (Some ''T1'')
       [OList [VStr ''old''], ODict [(KStr ''legaltags'', VRef 0), (KStr ''status'', VStr ''x'')],
        ODict [(KStr ''legal'', VRef 1)]] = (Inr manifest, h')
     \<and> ''T1'' \<noteq> []
     \<and> (\<exists>legal t c. subscript h' manifest (KStr ''legal'') = Inr legal \<and>
           subscript h' legal (KStr ''legaltags'') = Inr t \<and>
           json_dump (Suc 0) h' t = Inr (JArr [JStr ''T1'']) \<and>
           subscript h' legal (KStr ''otherRelevantDataCountries'') = Inr c \<and>
           json_dump (Suc 0) h' c = Inr (JArr [JStr ''US'']))"
proof -
  have "case create_manifest_from_row 3 no_conversions (VRef 2) VNone [] [] [''x''] None None (Some ''T1'')
       [OList [VStr ''old''], ODict [(KStr ''legaltags'', VRef 0), (KStr ''status'', VStr ''x'')],
        ODict [(KStr ''legal'', VRef 1)]] of (Inr m, h') \<Rightarrow> True | (Inl e, h') \<Rightarrow> False"
    by code_simp
  then obtain manifest h' where r: "create_manifest_from_row 3 no_conversions (VRef 2) VNone [] [] [''x''] None None (Some ''T1'')
       [OList [VStr ''old''], ODict [(KStr ''legaltags'', VRef 0), (KStr ''status'', VStr ''x'')],
        ODict [(KStr ''legal'', VRef 1)]] = (Inr manifest, h')"
    by (auto split: prod.splits sum.splits)
  have t: "''T1'' \<noteq> []" by simp
  from legal_tag_set[OF r t] r t show ?thesis by blast
qed

section \<open>\<^verbatim>\<open>create_manifest_from_csv\<close>\<close>

subsection \<open>Paths and file names\<close>

text \<open>
  \<^verbatim>\<open>os.path.join\<close> and \<^verbatim>\<open>os.path.basename\<close> as \<^verbatim>\<open>posixpath\<close> defines them, for two
  components.
\<close>

definition path_join :: "string \<Rightarrow> string \<Rightarrow> string" where
  "path_join a b =
     (if startswith b ''/'' then b
      else if a = [] \<or> endswith a ''/'' then a @ b
      else a @ ''/'' @ b)"

definition basename :: "string \<Rightarrow> string" where
  "basename p = last (py_split (CHR ''/'') p)"

text \<open>
  The default name of a row's file:
  \<^verbatim>\<open>os.path.join(output_path, os.path.basename(input_csv)[:-4] + '_' + str(row_count) + '.json')\<close>.
\<close>

definition default_output_file :: "string \<Rightarrow> string \<Rightarrow> nat \<Rightarrow> string" where
  "default_output_file output_path input_csv row_count =
     path_join output_path
       (take (length (basename input_csv) - 4) (basename input_csv) @ ''_'' @ py_str row_count @ ''.json'')"

text \<open>
  One round of the renaming loop: the suffix goes before the extension when the path has
  a dot, at the end otherwise.
\<close>

definition rename_duplicate :: "string \<Rightarrow> nat \<Rightarrow> string" where
  "rename_duplicate output_file duplicate_name_count =
     (let name_parts = py_split (CHR ''.'') output_file in
      if length name_parts > 1
      then py_join ''.'' (name_parts[length name_parts - 2 :=
                            name_parts ! (length name_parts - 2) @ ''_'' @ py_str duplicate_name_count])
      else output_file @ ''_'' @ py_str duplicate_name_count)"

lemma length_py_join:
  "length (py_join sep ps) = sum_list (map length ps) + (length ps - 1) * length sep"
  by (induction sep ps rule: py_join.induct) auto

lemma py_split_not_Nil [simp]: "py_split c s \<noteq> []"
  by (induction s) (auto split: list.splits)

lemma length_py_split:
  "sum_list (map length (py_split c s)) + (length (py_split c s) - 1) = length s"
proof (induction s)
  case Nil
  then show ?case by simp
next
  case (Cons a s)
  then show ?case
    using py_split_not_Nil[of c s]
    by (cases "py_split c s") (auto split: list.splits)
qed

lemma sum_length_update:
  "i < length ps \<Longrightarrow>
   sum_list (map length (ps[i := ps ! i @ x])) = sum_list (map length ps) + length x"
proof (induction ps arbitrary: i)
  case Nil
  then show ?case by simp
next
  case (Cons p ps)
  then show ?case by (cases i) auto
qed

lemma length_py_str: "0 < length (py_str n)"
  by (subst py_str.simps) simp

lemma length_rename_duplicate:
  "length output_file < length (rename_duplicate output_file duplicate_name_count)"
proof (cases "length (py_split (CHR ''.'') output_file) > 1")
  case True
  let ?ps = "py_split (CHR ''.'') output_file"
  let ?x = "''_'' @ py_str duplicate_name_count"
  have i: "length ?ps - 2 < length ?ps" using True by simp
  have "length (rename_duplicate output_file duplicate_name_count)
          = sum_list (map length ?ps) + length ?x + (length ?ps - 1)"
    using True sum_length_update[OF i, of ?x]
    by (simp add: rename_duplicate_def Let_def length_py_join)
  also have "\<dots> = length output_file + length ?x"
    using length_py_split[of "CHR ''.''" output_file] by simp
  finally show ?thesis by simp
next
  case False
  then show ?thesis by (simp add: rename_duplicate_def Let_def)
qed

lemma length_py_lower [simp]: "length (py_lower s) = length s"
  by (simp add: py_lower_def)

definition max_length :: "string list \<Rightarrow> nat" where
  "max_length names = foldr (\<lambda>s m. max (length s) m) names 0"

lemma length_le_max_length: "s \<in> set names \<Longrightarrow> length s \<le> max_length names"
  by (induction names) (auto simp: max_length_def)

text \<open>
  \<^verbatim>\<open>while output_file.lower() in processed_lower\<close>: rename, count up.  Every round makes
  the name longer, and only finitely many names are in the set, so the loop ends.
\<close>

function unique_name :: "string \<Rightarrow> nat \<Rightarrow> string list \<Rightarrow> string" where
  "unique_name output_file duplicate_name_count processed_lower =
     (if py_lower output_file \<in> set processed_lower
      then unique_name (rename_duplicate output_file duplicate_name_count)
             (duplicate_name_count + 1) processed_lower
      else output_file)"
  by pat_completeness auto
termination
proof (relation "measure (\<lambda>(output_file, c, processed_lower).
                   Suc (max_length processed_lower) - length output_file)")
  show "wf (measure (\<lambda>(output_file, c, processed_lower).
              Suc (max_length processed_lower) - length output_file))"
    by simp
next
  fix output_file :: string and duplicate_name_count :: nat and processed_lower :: "string list"
  assume "py_lower output_file \<in> set processed_lower"
  from length_le_max_length[OF this] have "length output_file \<le> max_length processed_lower"
    by simp
  with length_rename_duplicate[of output_file duplicate_name_count]
  show "((rename_duplicate output_file duplicate_name_count, duplicate_name_count + 1, processed_lower),
          output_file, duplicate_name_count, processed_lower)
         \<in> measure (\<lambda>(output_file, c, processed_lower).
                       Suc (max_length processed_lower) - length output_file)"
    by simp
qed

declare unique_name.simps [simp del]

subsection \<open>Arguments, log and state\<close>

text \<open>
  The files the function reads are given by their contents: the rows of the CSV file and
  the document of the template file.  \<open>arg_required_template\<close> is the document of the
  \<^verbatim>\<open>required_template\<close> text when that argument is a non-empty string, \<open>None\<close> when it is
  \<^verbatim>\<open>None\<close> or empty.  \<open>arg_schema_block\<close> stands for the block "load schemas if available"
  (\<^verbatim>\<open>load_schemas\<close> and the look-up of the schema id), which reads the schema directory:
  for the schema id it gives the exception the block raises, or whether a schema was
  found.  Nothing later in the function uses the schema.

  The files the function writes are a map from paths to documents.  Whether a path can
  be written or removed is decided by the directories, which the function never changes:
  \<open>arg_can_open\<close> says for which paths \<^verbatim>\<open>open(path, "w")\<close> succeeds (the directory exists
  and allows it; otherwise \<^verbatim>\<open>open\<close> raises an \<^verbatim>\<open>OSError\<close>), and \<open>arg_can_remove\<close> for which
  paths \<^verbatim>\<open>os.remove(path)\<close> succeeds when the file is there.
\<close>

record args =
  arg_input_csv :: string
  arg_csv_rows :: "string list list"
  arg_template :: json
  arg_output_path :: string
  arg_schema_path :: "string option"
  arg_schema_ns_name :: "string option"
  arg_schema_ns_value :: "string option"
  arg_required_template :: "json option"
  arg_array_parent :: "string option"
  arg_object_parent :: "string option"
  arg_group_filename :: "string option"
  arg_acl_viewer :: "string option"
  arg_acl_owner :: "string option"
  arg_legal_tag :: "string option"
  arg_schema_block :: "val \<Rightarrow> error + bool"
  arg_can_open :: "string \<Rightarrow> bool"
  arg_can_remove :: "string \<Rightarrow> bool"

datatype log_entry =
    WarnArrayParentNeeded
  | WarnNoSchemaFound
  | WarnDuplicateRows nat string
  | ExceptionInRow nat error
  | InfoGenerated nat
  | InfoSkippedEmptyRows nat

text \<open>
  The state of a run: the store, the files written (path and document), the log, and the
  local variables of the row loop.  The sets \<^verbatim>\<open>processed\<close> and \<^verbatim>\<open>processed_lower\<close> are
  lists without repetition.
\<close>

record run_state =
  st_heap :: heap
  st_files :: "(string \<times> json) list"
  st_log :: "log_entry list"
  st_processed :: "string list"
  st_processed_lower :: "string list"
  st_row_count :: nat
  st_empty_row_count :: nat

text \<open>What the part before the row loop computes.\<close>

record prep =
  pr_root_template :: val
  pr_required_template :: val
  pr_parameters_object :: pindex
  pr_map_parameter_column :: bindings
  pr_output_array_parent :: val
  pr_output_object_parent :: val
  pr_output_kind_parent :: val
  pr_group_lm :: "val option"
  pr_group_lm_parent :: "val option"
  pr_output_group_filename :: string

definition nonempty_arg :: "string option \<Rightarrow> bool" where
  "nonempty_arg s = (case s of None \<Rightarrow> False | Some t \<Rightarrow> length t > 0)"

subsection \<open>The directives of the template\<close>

definition tag_file_name :: string where
  "tag_file_name = ''$filename''"

definition tag_schema_id :: string where
  "tag_schema_id = ''$schema''"

definition tag_array_parent :: string where
  "tag_array_parent = ''$array_parent''"

definition tag_object_parent :: string where
  "tag_object_parent = ''$object_parent''"

definition tag_kind_parent :: string where
  "tag_kind_parent = ''$kind_parent''"

definition tag_required_template :: string where
  "tag_required_template = ''$required_template''"

text \<open>
  \<^verbatim>\<open>root_template.get(tag)\<close> and \<^verbatim>\<open>del root_template[key]\<close>.  A template that is not a
  dict has no \<^verbatim>\<open>get\<close>.
\<close>

definition template_get :: "heap \<Rightarrow> val \<Rightarrow> string \<Rightarrow> error + val" where
  "template_get h root_template tag =
     (case root_template of
        VRef a \<Rightarrow>
          (case heap_get h a of
             Some (ODict kvs) \<Rightarrow>
               (case dict_get kvs (KStr tag) of Some v \<Rightarrow> Inr v | None \<Rightarrow> Inr VNone)
           | _ \<Rightarrow> Inl AttributeError)
      | _ \<Rightarrow> Inl AttributeError)"

definition delitem :: "val \<Rightarrow> key \<Rightarrow> heap \<Rightarrow> unit res" where
  "delitem v k h =
     (case v of
        VRef a \<Rightarrow>
          (case heap_get h a of
             Some (ODict kvs) \<Rightarrow>
               (case dict_get kvs k of
                  Some x \<Rightarrow> (Inr (), heap_set a (ODict (dict_del kvs k)) h)
                | None \<Rightarrow> (Inl KeyError, h))
           | _ \<Rightarrow> (Inl TypeError, h))
      | _ \<Rightarrow> (Inl TypeError, h))"

text \<open>
  The pattern of lines 527 to 553 for the tags \<^verbatim>\<open>$schema\<close>, \<^verbatim>\<open>$array_parent\<close>,
  \<^verbatim>\<open>$object_parent\<close> and \<^verbatim>\<open>$kind_parent\<close>: read the value, and delete the key when the
  value is not \<^verbatim>\<open>None\<close>.
\<close>

definition take_directive :: "string \<Rightarrow> val \<Rightarrow> heap \<Rightarrow> val res" where
  "take_directive tag root_template h =
     (case template_get h root_template tag of
        Inl e \<Rightarrow> (Inl e, h)
      | Inr v \<Rightarrow>
          if v = VNone then (Inr v, h)
          else (case delitem root_template (KStr tag) h of
                  (Inl e, h1) \<Rightarrow> (Inl e, h1)
                | (Inr u, h1) \<Rightarrow> (Inr v, h1)))"

text \<open>
  Lines 531 to 533 read the value of \<^verbatim>\<open>$required_template\<close> and then execute
  \<^verbatim>\<open>del root_template[required_template_from_template]\<close>: the key deleted is the value
  read, not the tag.  A dict or a list is no key (\<^verbatim>\<open>TypeError\<close>, unhashable); a string is
  deleted when the template has it as a key; any other value is a key the template does
  not have.
\<close>

definition take_required_template :: "val \<Rightarrow> heap \<Rightarrow> val res" where
  "take_required_template root_template h =
     (case template_get h root_template tag_required_template of
        Inl e \<Rightarrow> (Inl e, h)
      | Inr v \<Rightarrow>
          (case v of
             VNone \<Rightarrow> (Inr v, h)
           | VRef a \<Rightarrow> (Inl TypeError, h)
           | VStr s \<Rightarrow>
               (case delitem root_template (KStr s) h of
                  (Inl e, h1) \<Rightarrow> (Inl e, h1)
                | (Inr u, h1) \<Rightarrow> (Inr v, h1))
           | _ \<Rightarrow> (Inl KeyError, h)))"

subsection \<open>Before the row loop\<close>

text \<open>A step on the store, run on the store of the state.\<close>

definition on_heap :: "(heap \<Rightarrow> 'a res) \<Rightarrow> run_state \<Rightarrow> (error + 'a) \<times> run_state" where
  "on_heap f st = (case f (st_heap st) of (r, h') \<Rightarrow> (r, st\<lparr>st_heap := h'\<rparr>))"

definition add_log :: "log_entry \<Rightarrow> run_state \<Rightarrow> run_state" where
  "add_log entry st = st\<lparr>st_log := st_log st @ [entry]\<rparr>"

text \<open>
  \<^verbatim>\<open>x is not None and len(x) > 0\<close> for a value of the template: \<^verbatim>\<open>len\<close> raises on a number
  or a boolean.
\<close>

definition not_none_and_nonempty :: "heap \<Rightarrow> val \<Rightarrow> error + bool" where
  "not_none_and_nonempty h v =
     (if v = VNone then Inr False
      else (case py_len h v of Inl e \<Rightarrow> Inl e | Inr l \<Rightarrow> Inr (l > 0)))"

text \<open>
  Lines 539 to 549: the argument, when it is a non-empty string, replaces the value read
  from the template.
\<close>

definition override_with :: "string option \<Rightarrow> val \<Rightarrow> val" where
  "override_with arg v = (if nonempty_arg arg then VStr (the arg) else v)"

text \<open>
  Lines 552 to 555: \<^verbatim>\<open>output_kind_parent.replace(schema_ns_name + ":", schema_ns_value + ":")\<close>
  when the kind is not \<^verbatim>\<open>None\<close> and a namespace name is given.
\<close>

definition kind_with_namespace :: "args \<Rightarrow> val \<Rightarrow> error + val" where
  "kind_with_namespace a kind =
     (if kind = VNone \<or> \<not> nonempty_arg (arg_schema_ns_name a) then Inr kind
      else
        (case kind of
           VStr s \<Rightarrow>
             (case arg_schema_ns_value a of
                None \<Rightarrow> Inl TypeError
              | Some ns_value \<Rightarrow>
                  Inr (VStr (py_replace s (the (arg_schema_ns_name a) @ '':'') (ns_value @ '':''))))
         | _ \<Rightarrow> Inl AttributeError))"

text \<open>
  \<^verbatim>\<open>parent.split(".")\<close> of a directive value: only a string has \<^verbatim>\<open>split\<close>.
\<close>

definition split_parent :: "val \<Rightarrow> error + string list" where
  "split_parent v = (case v of VStr s \<Rightarrow> Inr (py_split (CHR ''.'') s) | _ \<Rightarrow> Inl AttributeError)"

text \<open>
  The loop of lines 571 to 574 for the group manifest.  The new dict is stored in
  \<^verbatim>\<open>group_lm\<close> itself at every round, while \<^verbatim>\<open>group_lm_parent\<close> steps down.
\<close>

fun group_parents :: "val \<Rightarrow> val \<Rightarrow> string list \<Rightarrow> heap \<Rightarrow> val res" where
  "group_parents group_lm group_lm_parent [] h = (Inr group_lm_parent, h)"
| "group_parents group_lm group_lm_parent (parent_item # parent_items) h =
     (case alloc (ODict []) h of
        (d, h1) \<Rightarrow>
          (case setitem group_lm (KStr (py_strip parent_item)) (VRef d) h1 of
             (Inl e, h2) \<Rightarrow> (Inl e, h2)
           | (Inr u, h2) \<Rightarrow>
               (case subscript h2 group_lm_parent (KStr (py_strip parent_item)) of
                  Inl e \<Rightarrow> (Inl e, h2)
                | Inr group_lm_parent' \<Rightarrow> group_parents group_lm group_lm_parent' parent_items h2)))"

text \<open>The loop of lines 669 to 672 (and 681 to 684) for the manifest of one row.\<close>

fun wrap_parents :: "val \<Rightarrow> string list \<Rightarrow> heap \<Rightarrow> val res" where
  "wrap_parents lm_parent [] h = (Inr lm_parent, h)"
| "wrap_parents lm_parent (parent_item # parent_items) h =
     (case alloc (ODict []) h of
        (d, h1) \<Rightarrow>
          (case setitem lm_parent (KStr (py_strip parent_item)) (VRef d) h1 of
             (Inl e, h2) \<Rightarrow> (Inl e, h2)
           | (Inr u, h2) \<Rightarrow>
               (case subscript h2 lm_parent (KStr (py_strip parent_item)) of
                  Inl e \<Rightarrow> (Inl e, h2)
                | Inr lm_parent' \<Rightarrow> wrap_parents lm_parent' parent_items h2)))"

text \<open>
  A new dict, with \<^verbatim>\<open>'kind'\<close> set when the kind is not \<^verbatim>\<open>None\<close> and not empty.
\<close>

definition new_parent_dict :: "val \<Rightarrow> heap \<Rightarrow> val res" where
  "new_parent_dict output_kind_parent h =
     (case alloc (ODict []) h of
        (d, h1) \<Rightarrow>
          (case not_none_and_nonempty h1 output_kind_parent of
             Inl e \<Rightarrow> (Inl e, h1)
           | Inr True \<Rightarrow>
               (case setitem (VRef d) (KStr ''kind'') output_kind_parent h1 of
                  (Inl e, h2) \<Rightarrow> (Inl e, h2)
                | (Inr u, h2) \<Rightarrow> (Inr (VRef d), h2))
           | Inr False \<Rightarrow> (Inr (VRef d), h1)))"

text \<open>
  Lines 557 to 576.  The result is \<^verbatim>\<open>(group_lm, group_lm_parent, output_group_filename)\<close>.
\<close>

definition build_group ::
  "args \<Rightarrow> val \<Rightarrow> val \<Rightarrow> run_state \<Rightarrow> (error + (val option \<times> val option \<times> string)) \<times> run_state" where
  "build_group a output_array_parent output_kind_parent st =
     (if \<not> nonempty_arg (arg_group_filename a) then (Inr (None, None, []), st)
      else
        (case not_none_and_nonempty (st_heap st) output_array_parent of
           Inl e \<Rightarrow> (Inl e, st)
         | Inr has_parent \<Rightarrow>
             (let st1 = (if has_parent then st else add_log WarnArrayParentNeeded st);
                  g = the (arg_group_filename a);
                  group_filename = (if endswith g ''.json'' then g else g @ ''.json'');
                  output_group_filename = path_join (arg_output_path a) group_filename
              in case on_heap (new_parent_dict output_kind_parent) st1 of
                   (Inl e, st2) \<Rightarrow> (Inl e, st2)
                 | (Inr group_lm, st2) \<Rightarrow>
                     (case split_parent output_array_parent of
                        Inl e \<Rightarrow> (Inl e, st2)
                      | Inr parent_items \<Rightarrow>
                          (case on_heap (group_parents group_lm group_lm (butlast parent_items)) st2 of
                             (Inl e, st3) \<Rightarrow> (Inl e, st3)
                           | (Inr group_lm_parent, st3) \<Rightarrow>
                               (case alloc (OList []) (st_heap st3) of
                                  (l, h4) \<Rightarrow>
                                    (case setitem group_lm_parent (KStr (last parent_items)) (VRef l) h4 of
                                       (Inl e, h5) \<Rightarrow> (Inl e, st3\<lparr>st_heap := h5\<rparr>)
                                     | (Inr u, h5) \<Rightarrow>
                                         (Inr (Some group_lm, Some (VRef l), output_group_filename),
                                          st3\<lparr>st_heap := h5\<rparr>))))))))"

text \<open>
  Lines 578 to 592.  The block runs when a schema path is given and the template had a
  schema id; a schema that is not found is a warning.
\<close>

definition schema_step :: "args \<Rightarrow> val \<Rightarrow> run_state \<Rightarrow> (error + unit) \<times> run_state" where
  "schema_step a schema_id st =
     (if nonempty_arg (arg_schema_path a) \<and> schema_id \<noteq> VNone then
        (case arg_schema_block a schema_id of
           Inl e \<Rightarrow> (Inl e, st)
         | Inr True \<Rightarrow> (Inr (), st)
         | Inr False \<Rightarrow> (Inr (), add_log WarnNoSchemaFound st))
      else (Inr (), st))"

text \<open>
  Lines 524 to 555: the template is loaded, and the directives are read and removed.  The
  result is the template with the five values
  \<^verbatim>\<open>(schema_id, required_template, output_array_parent, output_object_parent,
  output_kind_parent)\<close>.
\<close>

definition read_directives ::
  "args \<Rightarrow> heap \<Rightarrow> (val \<times> val \<times> val \<times> val \<times> val \<times> val) res" where
  "read_directives a h =
     (case json_load (arg_template a) h of
        (root_template, h0) \<Rightarrow>
          (case take_directive tag_schema_id root_template h0 of
             (Inl e, h1) \<Rightarrow> (Inl e, h1)
           | (Inr schema_id, h1) \<Rightarrow>
               (case take_required_template root_template h1 of
                  (Inl e, h2) \<Rightarrow> (Inl e, h2)
                | (Inr required_template_from_template, h2) \<Rightarrow>
                    (case (case arg_required_template a of
                             Some j \<Rightarrow> json_load j h2
                           | None \<Rightarrow> (required_template_from_template, h2)) of
                       (required_template, h3) \<Rightarrow>
                         (case take_directive tag_array_parent root_template h3 of
                            (Inl e, h4) \<Rightarrow> (Inl e, h4)
                          | (Inr array_parent0, h4) \<Rightarrow>
                              (case take_directive tag_object_parent root_template h4 of
                                 (Inl e, h5) \<Rightarrow> (Inl e, h5)
                               | (Inr object_parent0, h5) \<Rightarrow>
                                   (case take_directive tag_kind_parent root_template h5 of
                                      (Inl e, h6) \<Rightarrow> (Inl e, h6)
                                    | (Inr kind_parent0, h6) \<Rightarrow>
                                        (case kind_with_namespace a kind_parent0 of
                                           Inl e \<Rightarrow> (Inl e, h6)
                                         | Inr output_kind_parent \<Rightarrow>
                                             (Inr (root_template, schema_id, required_template,
                                                   override_with (arg_array_parent a) array_parent0,
                                                   override_with (arg_object_parent a) object_parent0,
                                                   output_kind_parent), h6)))))))))"

text \<open>
  Lines 524 to 595: the directives, the group manifest, the schemas and the parameter
  index of the template.  The column bindings are still to come and are left empty.
\<close>

definition load_and_index :: "nat \<Rightarrow> args \<Rightarrow> run_state \<Rightarrow> (error + prep) \<times> run_state" where
  "load_and_index n a st =
     (case on_heap (read_directives a) st of
        (Inl e, st1) \<Rightarrow> (Inl e, st1)
      | (Inr (root_template, schema_id, required_template, output_array_parent,
              output_object_parent, output_kind_parent), st1) \<Rightarrow>
          (case build_group a output_array_parent output_kind_parent st1 of
             (Inl e, st2) \<Rightarrow> (Inl e, st2)
           | (Inr (group_lm, group_lm_parent, output_group_filename), st2) \<Rightarrow>
               (case schema_step a schema_id st2 of
                  (Inl e, st3) \<Rightarrow> (Inl e, st3)
                | (Inr u, st3) \<Rightarrow>
                    (case on_heap (parse_template_parameters n root_template []) st3 of
                       (Inl e, st4) \<Rightarrow> (Inl e, st4)
                     | (Inr parameters_object, st4) \<Rightarrow>
                         (Inr \<lparr>pr_root_template = root_template,
                               pr_required_template = required_template,
                               pr_parameters_object = parameters_object,
                               pr_map_parameter_column = [],
                               pr_output_array_parent = output_array_parent,
                               pr_output_object_parent = output_object_parent,
                               pr_output_kind_parent = output_kind_parent,
                               pr_group_lm = group_lm,
                               pr_group_lm_parent = group_lm_parent,
                               pr_output_group_filename = output_group_filename\<rparr>, st4)))))"

text \<open>
  Everything before the row loop: the above, then the column bindings (line 598).  An
  exception here ends the run.
\<close>

definition prepare :: "nat \<Rightarrow> args \<Rightarrow> run_state \<Rightarrow> (error + prep) \<times> run_state" where
  "prepare n a st =
     (case load_and_index n a st of
        (Inl e, st1) \<Rightarrow> (Inl e, st1)
      | (Inr p, st1) \<Rightarrow>
          (case map_csv_column_names_to_parameters (arg_csv_rows a) (pr_parameters_object p) of
             Inl e \<Rightarrow> (Inl e, st1)
           | Inr map_parameter_column \<Rightarrow>
               (Inr (p\<lparr>pr_map_parameter_column := map_parameter_column\<rparr>), st1)))"

subsection \<open>One row\<close>

text \<open>
  A row is skipped as empty when no cell has anything but white space.
\<close>

definition row_is_empty :: "string list \<Rightarrow> bool" where
  "row_is_empty rows = list_all (\<lambda>row_column. length (py_strip row_column) = 0) rows"

text \<open>
  Lines 637 and 638: \<^verbatim>\<open>replace_json_namespace(lm, schema_ns_name + ":", schema_ns_value + ":")\<close>
  when a namespace name is given.  The manifest is dumped, the text replaced, and the
  result loaded as a new object; a text that no longer parses raises a \<^verbatim>\<open>ValueError\<close>.
\<close>

definition namespace_step :: "nat \<Rightarrow> env \<Rightarrow> args \<Rightarrow> val \<Rightarrow> heap \<Rightarrow> val res" where
  "namespace_step n ev a lm h =
     (if nonempty_arg (arg_schema_ns_name a) then
        (case arg_schema_ns_value a of
           None \<Rightarrow> (Inl TypeError, h)
         | Some ns_value \<Rightarrow>
             (case json_dump n h lm of
                Inl e \<Rightarrow> (Inl e, h)
              | Inr j \<Rightarrow>
                  (case json_text_replace ev j (the (arg_schema_ns_name a) @ '':'') (ns_value @ '':'') of
                     None \<Rightarrow> (Inl ValueError, h)
                   | Some j' \<Rightarrow> (case json_load j' h of (v, h1) \<Rightarrow> (Inr v, h1)))))
      else (Inr lm, h))"

text \<open>
  Lines 639 to 641: \<^verbatim>\<open>lm.get(tag_file_name)\<close>, then \<^verbatim>\<open>replace('/', '-')\<close> and
  \<^verbatim>\<open>replace('\\', '-')\<close> on the result.  Both calls come before the test
  \<^verbatim>\<open>output_file_name is not None\<close>; a value that is \<^verbatim>\<open>None\<close> (the key is absent) or is
  not a string has no \<^verbatim>\<open>replace\<close>, which is an \<^verbatim>\<open>AttributeError\<close>.
\<close>

definition read_file_name :: "heap \<Rightarrow> val \<Rightarrow> error + string" where
  "read_file_name h lm =
     (case template_get h lm tag_file_name of
        Inl e \<Rightarrow> Inl e
      | Inr (VStr s) \<Rightarrow> Inr (py_replace (py_replace s ''/'' ''-'') [CHR 0x5C] ''-'')
      | Inr _ \<Rightarrow> Inl AttributeError)"

text \<open>
  Lines 646 to 658.  A path that is in \<^verbatim>\<open>processed\<close> is kept and a warning is logged;
  otherwise the renaming loop runs, starting with the count 1.
\<close>

definition resolve_duplicate :: "nat \<Rightarrow> string \<Rightarrow> string \<Rightarrow> run_state \<Rightarrow> string \<times> run_state" where
  "resolve_duplicate row_count output_file_name output_file st =
     (if output_file \<in> set (st_processed st)
      then (output_file, add_log (WarnDuplicateRows row_count output_file_name) st)
      else (unique_name output_file 1 (st_processed_lower st), st))"

text \<open>
  Lines 664 to 674 and 676 to 686: the manifest of the row inside the parent path, as the
  only element of a list (array parent) or as it is (object parent).
\<close>

definition wrap_in_parent :: "bool \<Rightarrow> val \<Rightarrow> val \<Rightarrow> val \<Rightarrow> heap \<Rightarrow> val res" where
  "wrap_in_parent as_array output_parent output_kind_parent lm h =
     (case split_parent output_parent of
        Inl e \<Rightarrow> (Inl e, h)
      | Inr parent_items \<Rightarrow>
          (case new_parent_dict output_kind_parent h of
             (Inl e, h1) \<Rightarrow> (Inl e, h1)
           | (Inr new_lm, h1) \<Rightarrow>
               (case wrap_parents new_lm (butlast parent_items) h1 of
                  (Inl e, h2) \<Rightarrow> (Inl e, h2)
                | (Inr lm_parent, h2) \<Rightarrow>
                    (case (if as_array
                           then (case alloc (OList [lm]) h2 of (l, h3) \<Rightarrow> (VRef l, h3))
                           else (lm, h2)) of
                       (x, h3) \<Rightarrow>
                         (case setitem lm_parent (KStr (last parent_items)) x h3 of
                            (Inl e, h4) \<Rightarrow> (Inl e, h4)
                          | (Inr u, h4) \<Rightarrow> (Inr new_lm, h4))))))"

text \<open>\<^verbatim>\<open>group_lm_parent.append(lm)\<close>.\<close>

definition list_append :: "val \<Rightarrow> val \<Rightarrow> heap \<Rightarrow> unit res" where
  "list_append l x h =
     (case l of
        VRef a \<Rightarrow>
          (case heap_get h a of
             Some (OList xs) \<Rightarrow> (Inr (), heap_set a (OList (xs @ [x])) h)
           | _ \<Rightarrow> (Inl AttributeError, h))
      | _ \<Rightarrow> (Inl AttributeError, h))"

text \<open>Lines 660 to 686.\<close>

definition place_manifest :: "prep \<Rightarrow> val \<Rightarrow> heap \<Rightarrow> val res" where
  "place_manifest p lm h =
     (if pr_output_array_parent p \<noteq> VNone then
        (case pr_group_lm_parent p of
           Some group_lm_parent \<Rightarrow>
             (case list_append group_lm_parent lm h of
                (Inl e, h1) \<Rightarrow> (Inl e, h1)
              | (Inr u, h1) \<Rightarrow> (Inr lm, h1))
         | None \<Rightarrow> wrap_in_parent True (pr_output_array_parent p) (pr_output_kind_parent p) lm h)
      else if pr_output_object_parent p \<noteq> VNone then
        wrap_in_parent False (pr_output_object_parent p) (pr_output_kind_parent p) lm h
      else (Inr lm, h))"

text \<open>
  \<^verbatim>\<open>with open(path, "w") as f: json.dump(obj, f, indent=4)\<close>.  When the file cannot be
  opened nothing changes.  When it is opened and the dump fails, the file is left with a
  part of the text, which is no document: the model leaves the path without a document
  (the one caller that catches the exception removes the file next).
\<close>

definition dump_to_file :: "nat \<Rightarrow> args \<Rightarrow> string \<Rightarrow> val \<Rightarrow> run_state \<Rightarrow> (error + unit) \<times> run_state" where
  "dump_to_file n a path obj st =
     (if \<not> arg_can_open a path then (Inl OSError, st)
      else (case json_dump n (st_heap st) obj of
              Inl e \<Rightarrow> (Inl e, st\<lparr>st_files := dict_del (st_files st) path\<rparr>)
            | Inr j \<Rightarrow> (Inr (), st\<lparr>st_files := dict_set (st_files st) path j\<rparr>)))"

text \<open>
  Lines 688 to 697: without a group manifest the document is written to \<^verbatim>\<open>output_file\<close>
  (a later write to the same path replaces the earlier one); then the path joins the two
  sets.
\<close>

definition write_manifest ::
  "nat \<Rightarrow> args \<Rightarrow> prep \<Rightarrow> string \<Rightarrow> val \<Rightarrow> run_state \<Rightarrow> (error + unit) \<times> run_state" where
  "write_manifest n a p output_file lm st =
     (case (if pr_group_lm p = None then dump_to_file n a output_file lm st else (Inr (), st)) of
        (Inl e, st1) \<Rightarrow> (Inl e, st1)
      | (Inr u, st1) \<Rightarrow>
          (Inr (), st1\<lparr>st_processed := List.insert output_file (st_processed st1),
                      st_processed_lower :=
                        List.insert (py_lower output_file) (st_processed_lower st1)\<rparr>))"

text \<open>
  The body of the \<^verbatim>\<open>try\<close> statement, lines 627 to 697.  Beside the state it returns the
  exception, if one was raised, and the value the variable \<^verbatim>\<open>output_file\<close> has at the end
  or when the exception is raised: the handler removes that file.
\<close>

definition try_row ::
  "nat \<Rightarrow> env \<Rightarrow> args \<Rightarrow> prep \<Rightarrow> string list \<Rightarrow> nat \<Rightarrow> string \<Rightarrow> run_state
     \<Rightarrow> (error option \<times> string) \<times> run_state" where
  "try_row n ev a p rows row_count output_file0 st =
     (case on_heap (create_manifest_from_row n ev (pr_root_template p) (pr_required_template p)
                      (pr_parameters_object p) (pr_map_parameter_column p) rows
                      (arg_acl_viewer a) (arg_acl_owner a) (arg_legal_tag a)) st of
        (Inl e, st1) \<Rightarrow> ((Some e, output_file0), st1)
      | (Inr lm0, st1) \<Rightarrow>
          (case on_heap (namespace_step n ev a lm0) st1 of
             (Inl e, st2) \<Rightarrow> ((Some e, output_file0), st2)
           | (Inr lm, st2) \<Rightarrow>
               (case read_file_name (st_heap st2) lm of
                  Inl e \<Rightarrow> ((Some e, output_file0), st2)
                | Inr output_file_name \<Rightarrow>
                    (let output_file1 = path_join (arg_output_path a) output_file_name in
                     case on_heap (delitem lm (KStr tag_file_name)) st2 of
                       (Inl e, st3) \<Rightarrow> ((Some e, output_file1), st3)
                     | (Inr u, st3) \<Rightarrow>
                         (case resolve_duplicate row_count output_file_name output_file1 st3 of
                            (output_file, st4) \<Rightarrow>
                              (case on_heap (place_manifest p lm) st4 of
                                 (Inl e, st5) \<Rightarrow> ((Some e, output_file), st5)
                               | (Inr lm', st5) \<Rightarrow>
                                   (case write_manifest n a p output_file lm' st5 of
                                      (Inl e, st6) \<Rightarrow> ((Some e, output_file), st6)
                                    | (Inr u, st6) \<Rightarrow> ((None, output_file), st6))))))))"

text \<open>
  One round of \<^verbatim>\<open>for rows in reader\<close> after the header.  The handler of the \<^verbatim>\<open>try\<close>
  statement catches every exception of the row: it logs the row and removes the file
  named by \<^verbatim>\<open>output_file\<close>, if there is one and it can be removed (an exception of
  \<^verbatim>\<open>os.remove\<close> is passed over).  The loop then goes on with the next row.
\<close>

definition os_remove :: "args \<Rightarrow> string \<Rightarrow> run_state \<Rightarrow> run_state" where
  "os_remove a path st =
     (if arg_can_remove a path then st\<lparr>st_files := dict_del (st_files st) path\<rparr> else st)"

definition process_row :: "nat \<Rightarrow> env \<Rightarrow> args \<Rightarrow> prep \<Rightarrow> string list \<Rightarrow> run_state \<Rightarrow> run_state" where
  "process_row n ev a p rows st =
     (let row_count = st_row_count st + 1;
          st1 = st\<lparr>st_row_count := row_count\<rparr>
      in if row_is_empty rows
         then st1\<lparr>st_empty_row_count := st_empty_row_count st1 + 1\<rparr>
         else
           (case try_row n ev a p rows row_count
                   (default_output_file (arg_output_path a) (arg_input_csv a) row_count) st1 of
              ((None, output_file), st2) \<Rightarrow> st2
            | ((Some e, output_file), st2) \<Rightarrow>
                os_remove a output_file (add_log (ExceptionInRow row_count e) st2)))"

fun process_rows :: "nat \<Rightarrow> env \<Rightarrow> args \<Rightarrow> prep \<Rightarrow> string list list \<Rightarrow> run_state \<Rightarrow> run_state" where
  "process_rows n ev a p [] st = st"
| "process_rows n ev a p (rows # rest) st = process_rows n ev a p rest (process_row n ev a p rows st)"

subsection \<open>The run\<close>

text \<open>
  A run ends normally or is aborted by an exception that no handler catches.  The files
  written so far stay in either case.
\<close>

datatype outcome = Completed | Aborted error

definition initial_state :: "(string \<times> json) list \<Rightarrow> run_state" where
  "initial_state files =
     \<lparr>st_heap = [], st_files = files, st_log = [], st_processed = [], st_processed_lower = [],
      st_row_count = 0, st_empty_row_count = 0\<rparr>"

text \<open>Lines 705 to 715: the group manifest is written, and the two counts are logged.\<close>

definition finish_run :: "nat \<Rightarrow> args \<Rightarrow> prep \<Rightarrow> run_state \<Rightarrow> outcome \<times> run_state" where
  "finish_run n a p st =
     (case (case pr_group_lm p of
              None \<Rightarrow> (Inr (), st)
            | Some group_lm \<Rightarrow> dump_to_file n a (pr_output_group_filename p) group_lm st) of
        (Inl e, st1) \<Rightarrow> (Aborted e, st1)
      | (Inr u, st1) \<Rightarrow>
          (let st2 = add_log (InfoGenerated (length (st_processed st1))) st1
           in (Completed,
               if st_empty_row_count st2 > 0
               then add_log (InfoSkippedEmptyRows (st_empty_row_count st2)) st2
               else st2)))"

text \<open>
  \<^verbatim>\<open>create_manifest_from_csv\<close>, started with the files \<open>files\<close> in place.  The first row of
  the CSV file is the header; the loop runs over the others.
\<close>

definition create_manifest_from_csv ::
  "nat \<Rightarrow> env \<Rightarrow> args \<Rightarrow> (string \<times> json) list \<Rightarrow> outcome \<times> run_state" where
  "create_manifest_from_csv n ev a files =
     (case prepare n a (initial_state files) of
        (Inl e, st) \<Rightarrow> (Aborted e, st)
      | (Inr p, st) \<Rightarrow> finish_run n a p (process_rows n ev a p (tl (arg_csv_rows a)) st))"

section \<open>A row whose manifest has no file name\<close>

text \<open>
  A run over the template \<^verbatim>\<open>{"a": "{{x}}"}\<close>, which has no \<^verbatim>\<open>$filename\<close> key, and the
  CSV file \<^verbatim>\<open>data/wells.csv\<close> with the header \<^verbatim>\<open>x\<close> and the one row \<^verbatim>\<open>5\<close>, into the
  directory \<^verbatim>\<open>out\<close>.
\<close>

definition no_file_name_run :: args where
  "no_file_name_run =
     \<lparr>arg_input_csv = ''data/wells.csv'',
      arg_csv_rows = [[''x''], [''5'']],
      arg_template = JObj [(''a'', JStr ''{{x}}'')],
      arg_output_path = ''out'', arg_schema_path = None, arg_schema_ns_name = None,
      arg_schema_ns_value = None, arg_required_template = None, arg_array_parent = None,
      arg_object_parent = None, arg_group_filename = None, arg_acl_viewer = None,
      arg_acl_owner = None, arg_legal_tag = None, arg_schema_block = (\<lambda>v. Inr True),
      arg_can_open = (\<lambda>path. True), arg_can_remove = (\<lambda>path. True)\<rparr>"

text \<open>
  Claim C2.  The row is materialized (the manifest is \<^verbatim>\<open>{"a": "5"}\<close>), but then
  \<^verbatim>\<open>lm.get('$filename')\<close> is \<^verbatim>\<open>None\<close> and \<^verbatim>\<open>None.replace('/', '-')\<close> raises an
  \<^verbatim>\<open>AttributeError\<close> before the test \<^verbatim>\<open>output_file_name is not None\<close> is reached: the row
  is logged as failed and no file is written, although the name \<^verbatim>\<open>out/wells_1.json\<close> had
  been computed for it.  This holds for every recursion bound that lets the row be
  materialized and for every behaviour of the conversions.
\<close>

theorem default_file_name_never_used:
  "default_output_file (arg_output_path no_file_name_run) (arg_input_csv no_file_name_run) 1
     = ''out/wells_1.json'' \<and>
   fst (create_manifest_from_row (Suc (Suc (Suc n))) ev (VRef 0) VNone
          [(''{{x}}'', [(0, [KStr ''a''], [])])] [(''{{x}}'', BScalar 0)] [''5''] None None None
          [ODict [(KStr ''a'', VStr ''{{x}}'')]]) = Inr (VRef 1) \<and>
   fst (create_manifest_from_csv (Suc (Suc (Suc n))) ev no_file_name_run []) = Completed \<and>
   st_files (snd (create_manifest_from_csv (Suc (Suc (Suc n))) ev no_file_name_run [])) = [] \<and>
   st_log (snd (create_manifest_from_csv (Suc (Suc (Suc n))) ev no_file_name_run []))
     = [ExceptionInRow 1 AttributeError, InfoGenerated 0]"
  by code_simp

section \<open>A legal tag for a manifest without a legal section\<close>

text \<open>
  A run over the template \<^verbatim>\<open>{"a": "{{x}}", "$filename": "{{f}}"}\<close>, which has no
  \<^verbatim>\<open>legal\<close> key, and the CSV file \<^verbatim>\<open>data/wells.csv\<close> with the header \<^verbatim>\<open>x,f\<close> and the one
  row \<^verbatim>\<open>5,one.json\<close>, into the directory \<^verbatim>\<open>out\<close>, with the legal tag \<open>legal_tag\<close>.
\<close>

definition no_legal_section_run :: "string option \<Rightarrow> args" where
  "no_legal_section_run legal_tag =
     \<lparr>arg_input_csv = ''data/wells.csv'',
      arg_csv_rows = [[''x'', ''f''], [''5'', ''one.json'']],
      arg_template = JObj [(''a'', JStr ''{{x}}''), (''$filename'', JStr ''{{f}}'')],
      arg_output_path = ''out'', arg_schema_path = None, arg_schema_ns_name = None,
      arg_schema_ns_value = None, arg_required_template = None, arg_array_parent = None,
      arg_object_parent = None, arg_group_filename = None, arg_acl_viewer = None,
      arg_acl_owner = None, arg_legal_tag = legal_tag, arg_schema_block = (\<lambda>v. Inr True),
      arg_can_open = (\<lambda>path. True), arg_can_remove = (\<lambda>path. True)\<rparr>"

text \<open>
  Claim C4.  With the legal tag \<^verbatim>\<open>T1\<close> the row is not materialized:
  \<^verbatim>\<open>manifest.get('legal')\<close> is \<^verbatim>\<open>None\<close>, and \<^verbatim>\<open>legal['legaltags'] = [legal_tag]\<close> raises a
  \<^verbatim>\<open>TypeError\<close>.  \<^verbatim>\<open>create_manifest_from_row\<close> returns no manifest, the run logs the row
  as failed and writes no file.  Without the tag the same run writes
  \<^verbatim>\<open>out/one.json\<close>; and \<^verbatim>\<open>set_acl_values\<close>, called just before, makes the \<^verbatim>\<open>acl\<close> section
  the manifest does not have.  This holds for every recursion bound that lets the row be
  materialized and for every behaviour of the conversions.
\<close>

theorem legal_tag_needs_legal_section:
  "fst (create_manifest_from_row (Suc (Suc (Suc n))) ev (VRef 0) VNone
          [(''{{x}}'', [(0, [KStr ''a''], [])]), (''{{f}}'', [(0, [KStr ''$filename''], [])])]
          [(''{{x}}'', BScalar 0), (''{{f}}'', BScalar 1)] [''5'', ''one.json'']
          None None (Some ''T1'')
          [ODict [(KStr ''a'', VStr ''{{x}}''), (KStr ''$filename'', VStr ''{{f}}'')]])
     = Inl TypeError \<and>
   fst (create_manifest_from_csv (Suc (Suc (Suc n))) ev (no_legal_section_run (Some ''T1'')) [])
     = Completed \<and>
   st_files (snd (create_manifest_from_csv (Suc (Suc (Suc n))) ev
                    (no_legal_section_run (Some ''T1'')) [])) = [] \<and>
   st_log (snd (create_manifest_from_csv (Suc (Suc (Suc n))) ev
                  (no_legal_section_run (Some ''T1'')) []))
     = [ExceptionInRow 1 TypeError, InfoGenerated 0] \<and>
   st_files (snd (create_manifest_from_csv (Suc (Suc (Suc n))) ev
                    (no_legal_section_run None) []))
     = [(''out/one.json'', JObj [(''a'', JStr ''5'')])] \<and>
   st_files (snd (create_manifest_from_csv (Suc (Suc (Suc n))) ev
                    ((no_legal_section_run None)\<lparr>arg_acl_viewer := Some ''V1''\<rparr>) []))
     = [(''out/one.json'', JObj [(''a'', JStr ''5''), (''acl'', JObj [(''viewers'', JArr [JStr ''V1''])])])]"
  by code_simp

section \<open>Two rows with the same file name\<close>

text \<open>
  \<^verbatim>\<open>processed_lower\<close> holds the lower-cased names of \<^verbatim>\<open>processed\<close>: the only step that
  changes either set adds a name to the first and its lower-cased form to the second.
  Without a group manifest that step comes after the file of that name was opened.
\<close>

definition processed_ok :: "args \<Rightarrow> prep \<Rightarrow> run_state \<Rightarrow> bool" where
  "processed_ok a p st =
     (set (st_processed_lower st) = py_lower ` set (st_processed st) \<and>
      (pr_group_lm p = None \<longrightarrow> list_all (arg_can_open a) (st_processed st)))"

lemma on_heap_processed:
  "on_heap f st = (r, st') \<Longrightarrow>
   st_processed st' = st_processed st \<and> st_processed_lower st' = st_processed_lower st"
  by (auto simp: on_heap_def split: prod.splits)

lemma resolve_duplicate_processed:
  "resolve_duplicate row_count output_file_name output_file st = (output_file', st') \<Longrightarrow>
   st_processed st' = st_processed st \<and> st_processed_lower st' = st_processed_lower st"
  by (auto simp: resolve_duplicate_def add_log_def split: if_splits)

lemma write_manifest_ok:
  "write_manifest n a p output_file lm st = (r, st') \<Longrightarrow> processed_ok a p st \<Longrightarrow>
   processed_ok a p st'"
  by (auto simp: write_manifest_def dump_to_file_def processed_ok_def list_all_iff
           split: if_splits sum.splits prod.splits)

lemma processed_ok_cong:
  "st_processed s' = st_processed s \<Longrightarrow> st_processed_lower s' = st_processed_lower s \<Longrightarrow>
   processed_ok a p s \<Longrightarrow> processed_ok a p s'"
  by (simp add: processed_ok_def)

lemma try_row_ok:
  assumes "try_row n ev a p rows row_count output_file0 st = (r, st')" "processed_ok a p st"
  shows "processed_ok a p st'"
  using assms(1) unfolding try_row_def Let_def
  apply (auto split: prod.splits sum.splits dest!: on_heap_processed resolve_duplicate_processed)
        apply (rule processed_ok_cong[OF _ _ assms(2)]; simp)
        apply (rule processed_ok_cong[OF _ _ assms(2)]; simp)
        apply (rule processed_ok_cong[OF _ _ assms(2)]; simp)
        apply (rule processed_ok_cong[OF _ _ assms(2)]; simp)
        apply (rule processed_ok_cong[OF _ _ assms(2)]; simp)
   apply (erule write_manifest_ok, rule processed_ok_cong[OF _ _ assms(2)]; simp)
   apply (erule write_manifest_ok, rule processed_ok_cong[OF _ _ assms(2)]; simp)
  done

lemma process_row_ok:
  "processed_ok a p st \<Longrightarrow> processed_ok a p (process_row n ev a p rows st)"
proof -
  assume inv: "processed_ok a p st"
  have s1: "processed_ok a p (st\<lparr>st_row_count := st_row_count st + 1\<rparr>)"
    using inv by (simp add: processed_ok_def)
  show ?thesis
  proof (cases "row_is_empty rows")
    case True
    then show ?thesis using inv by (simp add: process_row_def Let_def processed_ok_def)
  next
    case False
    obtain eo output_file st2 where t:
      "try_row n ev a p rows (st_row_count st + 1)
         (default_output_file (arg_output_path a) (arg_input_csv a) (st_row_count st + 1))
         (st\<lparr>st_row_count := st_row_count st + 1\<rparr>) = ((eo, output_file), st2)"
      by (metis prod.collapse)
    from try_row_ok[OF t s1] have "processed_ok a p st2" .
    then show ?thesis
      using False t
      by (cases eo)
         (simp_all add: process_row_def Let_def processed_ok_def add_log_def os_remove_def)
  qed
qed

lemma process_rows_ok:
  "processed_ok a p st \<Longrightarrow> processed_ok a p (process_rows n ev a p earlier st)"
  by (induction earlier arbitrary: st) (simp_all add: process_row_ok)

lemma unique_name_fresh: "py_lower (unique_name output_file c processed_lower) \<notin> set processed_lower"
  by (induction output_file c processed_lower rule: unique_name.induct)
     (subst unique_name.simps, simp)

lemma unique_name_kept:
  "py_lower output_file \<notin> set processed_lower \<Longrightarrow> unique_name output_file c processed_lower = output_file"
  by (subst unique_name.simps) simp

lemma unique_name_first_suffix:
  "py_lower output_file \<in> set processed_lower \<Longrightarrow>
   py_lower (rename_duplicate output_file c) \<notin> set processed_lower \<Longrightarrow>
   unique_name output_file c processed_lower = rename_duplicate output_file c"
  by (subst unique_name.simps) (simp add: unique_name_kept)


text \<open>
  A run over the template \<^verbatim>\<open>{"a": "{{x}}", "$filename": "{{f}}"}\<close> and three rows that
  name the files \<^verbatim>\<open>Out.json\<close>, \<^verbatim>\<open>out.json\<close> and \<^verbatim>\<open>Out.json\<close>, into the directory \<^verbatim>\<open>out\<close>,
  the only one where files can be written.
\<close>

definition in_out_directory :: "string \<Rightarrow> bool" where
  "in_out_directory path =
     (startswith path ''out/'' \<and> list_all (\<lambda>c. c \<noteq> CHR ''/'') (drop 4 path))"

definition same_name_run :: args where
  "same_name_run =
     \<lparr>arg_input_csv = ''data/wells.csv'',
      arg_csv_rows = [[''x'', ''f''], [''5'', ''Out.json''], [''6'', ''out.json''],
                      [''7'', ''Out.json'']],
      arg_template = JObj [(''a'', JStr ''{{x}}''), (''$filename'', JStr ''{{f}}'')],
      arg_output_path = ''out'', arg_schema_path = None, arg_schema_ns_name = None,
      arg_schema_ns_value = None, arg_required_template = None, arg_array_parent = None,
      arg_object_parent = None, arg_group_filename = None, arg_acl_viewer = None,
      arg_acl_owner = None, arg_legal_tag = None, arg_schema_block = (\<lambda>v. Inr True),
      arg_can_open = in_out_directory, arg_can_remove = in_out_directory\<rparr>"

definition same_name_prep :: prep where
  "same_name_prep =
     \<lparr>pr_root_template = VRef 0, pr_required_template = VNone,
      pr_parameters_object =
        [(''{{x}}'', [(0, [KStr ''a''], [])]), (''{{f}}'', [(0, [KStr ''$filename''], [])])],
      pr_map_parameter_column = [(''{{x}}'', BScalar 0), (''{{f}}'', BScalar 1)],
      pr_output_array_parent = VNone, pr_output_object_parent = VNone,
      pr_output_kind_parent = VNone, pr_group_lm = None, pr_group_lm_parent = None,
      pr_output_group_filename = []\<rparr>"

definition same_name_start :: run_state where
  "same_name_start =
     (initial_state [])\<lparr>st_heap := [ODict [(KStr ''a'', VStr ''{{x}}''),
                                           (KStr ''$filename'', VStr ''{{f}}'')]]\<rparr>"

definition same_name_two_rows :: run_state where
  "same_name_two_rows =
     process_rows 5 no_conversions same_name_run same_name_prep
       [[''5'', ''Out.json''], [''6'', ''out.json'']] same_name_start"


section \<open>A placeholder bound twice\<close>

text \<open>The faults the binder can raise, each with the statement that raises it.\<close>

lemma get_column_index_error:
  "get_column_index col_names col_name = Inl e \<Longrightarrow> e = DuplicateParameterInCsv col_name"
  by (auto simp: get_column_index_def split: option.splits)

lemma max_indexes_error:
  "max_indexes parameter_key d column_names indexes_count = Inl e \<Longrightarrow> e = ValueError"
  by (induction column_names arbitrary: indexes_count) (auto simp: Let_def split: if_splits)

lemma bind_loop_error:
  "indexes_column \<noteq> [] \<Longrightarrow>
   bind_loop column_names parameter_key indexes_count indexes_column parameter_column = Inl e \<Longrightarrow>
   \<exists>c. e = DuplicateParameterInCsv c"
proof (induction column_names parameter_key indexes_count indexes_column parameter_column
       rule: bind_loop.induct)
  case (1 column_names parameter_key indexes_count i0 idxs parameter_column)
  let ?idx = "i0 # idxs"
  show ?case
  proof (cases "get_column_index column_names (name_with_indexes parameter_key ?idx)")
    case (Inl e')
    with 1(3) have "e = e'" by (simp add: bind_loop.simps Let_def)
    with get_column_index_error[OF Inl] show ?thesis by blast
  next
    case (Inr csv_index)
    obtain idx' dn where adv: "advance (length ?idx) ?idx indexes_count False = (idx', dn)"
      by (cases "advance (length ?idx) ?idx indexes_count False")
    let ?acc = "case csv_index of None \<Rightarrow> parameter_column
                | Some c \<Rightarrow> parameter_column @ [(?idx, c)]"
    from 1(3) Inr adv have nd: "\<not> dn"
      and rec: "bind_loop column_names parameter_key indexes_count idx' ?acc = Inl e"
      by (auto simp: bind_loop.simps Let_def split: if_splits)
    from adv nd have "advance (length ?idx) ?idx indexes_count False = (idx', False)" by simp
    from advance_not_done[OF this] obtain i where "i < length ?idx"
      "idx' = (take i ?idx @ replicate (length ?idx - i) 0)[i := ?idx ! i + 1]" by auto
    then have "length idx' = length ?idx" by simp
    then have ne: "idx' \<noteq> []" by auto
    from 1(1)[OF refl Inr refl adv[symmetric] nd ne rec] show ?thesis .
  qed
next
  case (2 a b c e)
  then show ?case by simp
qed

lemma bind_recs_error:
  "bind_recs column_names parameter parameter_key parameter_recs m = Inl e \<Longrightarrow>
   e = DuplicateArrayParameter parameter \<or> (\<exists>c. e = DuplicateParameterInCsv c) \<or> e = ValueError"
proof (induction parameter_recs arbitrary: m)
  case Nil
  then show ?case by simp
next
  case (Cons r parameter_recs)
  show ?case
  proof (cases "d_array_of r = 0")
    case True
    with Cons.prems Cons.IH show ?thesis
      by (auto simp: Let_def split: option.splits sum.splits dest: get_column_index_error)
  next
    case False
    then have ne: "replicate (d_array_of r) (0::nat) \<noteq> []" by simp
    from Cons.prems False Cons.IH show ?thesis
      by (auto simp: Let_def split: option.splits sum.splits
               dest: max_indexes_error bind_loop_error[OF ne])
  qed
qed

lemma bind_params_error:
  "bind_params column_names parameters_object m = Inl e \<Longrightarrow>
   (\<exists>q. e = DuplicateArrayParameter q) \<or> (\<exists>c. e = DuplicateParameterInCsv c) \<or> e = ValueError"
proof (induction parameters_object arbitrary: m)
  case Nil
  then show ?case by simp
next
  case (Cons pr parameters_object)
  obtain q recs where pr: "pr = (q, recs)" by (cases pr)
  show ?case
  proof (cases "bind_recs column_names q (parameter_key_of q) recs m")
    case (Inl e')
    with Cons.prems pr have "e = e'" by simp
    with bind_recs_error[OF Inl] show ?thesis by blast
  next
    case (Inr m')
    with Cons.prems pr have "bind_params column_names parameters_object m' = Inl e" by simp
    from Cons.IH[OF this] show ?thesis .
  qed
qed

lemma prepare_binder_fault:
  "load_and_index n a st0 = (Inr p, st) \<Longrightarrow>
   map_csv_column_names_to_parameters (arg_csv_rows a) (pr_parameters_object p) = Inl e \<Longrightarrow>
   prepare n a st0 = (Inl e, st)"
  by (simp add: prepare_def)


text \<open>
  Two runs over the CSV file with the header \<^verbatim>\<open>x,x_1\<close> and the row \<^verbatim>\<open>5,6\<close>.  In the first
  the template is \<^verbatim>\<open>{"a": [{"v": "{{x}}"}], "b": [{"w": "{{x}}"}], "$filename": "f.json"}\<close>:
  the placeholder is inside two arrays.  In the second it is
  \<^verbatim>\<open>{"a": "{{x}}", "b": [{"w": "{{x}}"}], "$filename": "f.json"}\<close>: the placeholder is
  outside every array first, where the column \<^verbatim>\<open>x\<close> binds it, and inside an array then.
\<close>

definition two_arrays_run :: args where
  "two_arrays_run =
     \<lparr>arg_input_csv = ''data/wells.csv'',
      arg_csv_rows = [[''x'', ''x_1''], [''5'', ''6'']],
      arg_template = JObj [(''a'', JArr [JObj [(''v'', JStr ''{{x}}'')]]),
                           (''b'', JArr [JObj [(''w'', JStr ''{{x}}'')]]),
                           (''$filename'', JStr ''f.json'')],
      arg_output_path = ''out'', arg_schema_path = None, arg_schema_ns_name = None,
      arg_schema_ns_value = None, arg_required_template = None, arg_array_parent = None,
      arg_object_parent = None, arg_group_filename = None, arg_acl_viewer = None,
      arg_acl_owner = None, arg_legal_tag = None, arg_schema_block = (\<lambda>v. Inr True),
      arg_can_open = (\<lambda>path. True), arg_can_remove = (\<lambda>path. True)\<rparr>"

definition scalar_then_array_run :: args where
  "scalar_then_array_run =
     two_arrays_run\<lparr>arg_template :=
        JObj [(''a'', JStr ''{{x}}''),
              (''b'', JArr [JObj [(''w'', JStr ''{{x}}'')]]),
              (''$filename'', JStr ''f.json'')]\<rparr>"

definition scalar_then_array_recs :: "prec list" where
  "scalar_then_array_recs = [(2, [KStr ''a''], []), (3, [KInt 0, KStr ''w''], [(2, [KStr ''b''])])]"

definition scalar_then_array_prep :: prep where
  "scalar_then_array_prep =
     \<lparr>pr_root_template = VRef 2, pr_required_template = VNone,
      pr_parameters_object = [(''{{x}}'', scalar_then_array_recs)],
      pr_map_parameter_column = [], pr_output_array_parent = VNone,
      pr_output_object_parent = VNone, pr_output_kind_parent = VNone,
      pr_group_lm = None, pr_group_lm_parent = None, pr_output_group_filename = []\<rparr>"

definition scalar_then_array_state :: run_state where
  "scalar_then_array_state =
     (initial_state [])\<lparr>st_heap :=
        [ODict [(KStr ''w'', VStr ''{{x}}'')], OList [VRef 0],
         ODict [(KStr ''a'', VStr ''{{x}}''), (KStr ''b'', VRef 1),
                (KStr ''$filename'', VStr ''f.json'')],
         ODict [(KInt 0, VRef 0)]]\<rparr>"


end
